theory Spec2Isabelle
  imports Complex_Main "HOL-Library.AList"
begin

section \<open>Python values\<close>

text \<open>
  The voice agent is Python. Its ints are \<open>int\<close>, its strings \<open>string\<close>. An exception
  is a value: \<open>Exc m\<close> is an instance of a subclass of \<open>Exception\<close> (what
  \<open>except Exception\<close> catches), \<open>BaseExc m\<close> one that is not (\<open>asyncio.CancelledError\<close>,
  \<open>KeyboardInterrupt\<close>). A computation that may raise returns \<open>py_exc + 'a\<close>.

  Clock readings and the samples made of them are finite floats, and are modelled by
  the reals they denote: what is proved of them is which readings are subtracted and
  which samples are stored where. The summary computes with the samples, and there the
  floats of the platform round, and overflow: the result of a float operation is a
  \<open>pyfloat\<close>, and the two operations of the summary, \<open>sum\<close> of a list of floats and
  \<open>/\<close> on floats, are not defined here but taken as they are, a parameter
  \<open>float_arith\<close> of the summary. (How \<open>sum\<close> adds is the interpreter's business: from
  the left, each addition rounded, up to Python 3.11; with a compensation of the
  rounding errors since 3.12.) Comparison does not round; \<open>pf_less\<close> is \<open><\<close> on
  floats, false when a side is not a number.
\<close>

datatype py_exc = Exc string | BaseExc string

type_synonym audio = string

datatype pyfloat = Finite real | PosInf | NegInf | NaN

fun pf_less :: "pyfloat \<Rightarrow> pyfloat \<Rightarrow> bool" where
  "pf_less (Finite a) (Finite b) = (a < b)"
| "pf_less (Finite a) PosInf = True"
| "pf_less NegInf (Finite b) = True"
| "pf_less NegInf PosInf = True"
| "pf_less a b = False"

record float_arith =
  py_sum :: "real list \<Rightarrow> pyfloat"
  f_truediv :: "pyfloat \<Rightarrow> pyfloat \<Rightarrow> pyfloat"

definition truediv :: "float_arith \<Rightarrow> pyfloat \<Rightarrow> pyfloat \<Rightarrow> py_exc + pyfloat" where
  \<comment> \<open>\<open>a / b\<close>: the float division, refused for a zero divisor\<close>
  "truediv fa a b =
     (if b = Finite 0 then Inl (Exc ''ZeroDivisionError'') else Inr (f_truediv fa a b))"

definition py_max :: "real list \<Rightarrow> py_exc + real" where
  "py_max xs = (case xs of [] \<Rightarrow> Inl (Exc ''ValueError'') | y # ys \<Rightarrow> Inr (foldl max y ys))"

definition py_min :: "real list \<Rightarrow> py_exc + real" where
  "py_min xs = (case xs of [] \<Rightarrow> Inl (Exc ''ValueError'') | y # ys \<Rightarrow> Inr (foldl min y ys))"

definition digit_char :: "nat \<Rightarrow> char" where
  "digit_char n = char_of (48 + n)"

fun str_nat :: "nat \<Rightarrow> string" where
  "str_nat n = (if n < 10 then [digit_char n] else str_nat (n div 10) @ [digit_char (n mod 10)])"

definition str_int :: "int \<Rightarrow> string" where
  "str_int i = (if i < 0 then CHR ''-'' # str_nat (nat (- i)) else str_nat (nat i))"

definition py_int :: "real \<Rightarrow> int" where
  \<comment> \<open>\<open>int(x)\<close> truncates towards zero.\<close>
  "py_int x = (if 0 \<le> x then \<lfloor>x\<rfloor> else \<lceil>x\<rceil>)"

section \<open>MetricsTracker (main.py)\<close>

text \<open>
  \<open>self.metrics\<close> is a dict with a fixed set of keys: a record. \<open>start_time\<close> and
  \<open>end_time\<close> hold \<open>datetime.now().isoformat()\<close>; the model keeps the instant itself.
  \<open>None\<close> is \<open>None\<close>.
\<close>

record metrics_dict =
  session_id :: "string option"
  start_time :: "real option"
  end_time :: "real option"
  total_duration :: real
  interruptions_count :: int
  stt_delays :: "real list"
  ttft_delays :: "real list"
  ttfd_delays :: "real list"
  total_latencies :: "real list"
  user_messages :: int
  agent_responses :: int
  errors :: int

record tracker =
  session_start :: "real option"
  metrics :: metrics_dict

definition MetricsTracker_init :: tracker where
  "MetricsTracker_init =
     \<lparr>session_start = None,
      metrics = \<lparr>session_id = None, start_time = None, end_time = None, total_duration = 0,
                 interruptions_count = 0, stt_delays = [], ttft_delays = [], ttfd_delays = [],
                 total_latencies = [], user_messages = 0, agent_responses = 0, errors = 0\<rparr>\<rparr>"

text \<open>
  The methods of the tracker. Those that read the clock take the reading \<open>t\<close> of
  \<open>time.time()\<close>. None of them has a branch that raises, and none looks at
  \<open>session_start\<close> but \<open>end_session\<close>. Logging is not modelled.
\<close>

definition start_session :: "real \<Rightarrow> string \<Rightarrow> tracker \<Rightarrow> tracker" where
  "start_session t sid tr =
     tr\<lparr>session_start := Some t,
        metrics := (metrics tr)\<lparr>session_id := Some sid, start_time := Some t\<rparr>\<rparr>"

definition record_stt_delay :: "real \<Rightarrow> tracker \<Rightarrow> tracker" where
  "record_stt_delay delay tr =
     tr\<lparr>metrics := (metrics tr)\<lparr>stt_delays := stt_delays (metrics tr) @ [delay]\<rparr>\<rparr>"

definition record_ttft :: "real \<Rightarrow> tracker \<Rightarrow> tracker" where
  "record_ttft delay tr =
     tr\<lparr>metrics := (metrics tr)\<lparr>ttft_delays := ttft_delays (metrics tr) @ [delay]\<rparr>\<rparr>"

definition record_ttfd :: "real \<Rightarrow> tracker \<Rightarrow> tracker" where
  "record_ttfd delay tr =
     tr\<lparr>metrics := (metrics tr)\<lparr>ttfd_delays := ttfd_delays (metrics tr) @ [delay]\<rparr>\<rparr>"

definition record_total_latency :: "real \<Rightarrow> tracker \<Rightarrow> tracker" where
  "record_total_latency latency tr =
     tr\<lparr>metrics := (metrics tr)\<lparr>total_latencies := total_latencies (metrics tr) @ [latency]\<rparr>\<rparr>"

definition record_interruption :: "tracker \<Rightarrow> tracker" where
  "record_interruption tr =
     tr\<lparr>metrics := (metrics tr)\<lparr>interruptions_count := interruptions_count (metrics tr) + 1\<rparr>\<rparr>"

definition record_user_message :: "tracker \<Rightarrow> tracker" where
  "record_user_message tr =
     tr\<lparr>metrics := (metrics tr)\<lparr>user_messages := user_messages (metrics tr) + 1\<rparr>\<rparr>"

definition record_agent_response :: "tracker \<Rightarrow> tracker" where
  "record_agent_response tr =
     tr\<lparr>metrics := (metrics tr)\<lparr>agent_responses := agent_responses (metrics tr) + 1\<rparr>\<rparr>"

definition record_error :: "tracker \<Rightarrow> tracker" where
  "record_error tr = tr\<lparr>metrics := (metrics tr)\<lparr>errors := errors (metrics tr) + 1\<rparr>\<rparr>"

definition end_session :: "real \<Rightarrow> tracker \<Rightarrow> tracker" where
  \<comment> \<open>\<open>if self.session_start:\<close> is false for \<open>None\<close> and for \<open>0.0\<close>.\<close>
  "end_session t tr =
     (case session_start tr of
        None \<Rightarrow> tr
      | Some s \<Rightarrow>
          if s = 0 then tr
          else tr\<lparr>metrics := (metrics tr)\<lparr>end_time := Some t, total_duration := t - s\<rparr>\<rparr>)"

subsection \<open>The summary row\<close>

text \<open>
  \<open>summary_data\<close> is a one-row table; its columns are the fields of \<open>row\<close>, in the
  order of the source. The averages guard the division with the list's truthiness, as
  the source does; \<open>truediv\<close>, \<open>py_max\<close> and \<open>py_min\<close> keep the exception the
  unguarded operation would raise. An average is the result of float operations, a
  \<open>pyfloat\<close>; a maximum or minimum is one of the samples.
\<close>

record row =
  col_session_id :: "string option"
  col_start_time :: "real option"
  col_end_time :: "real option"
  col_total_duration :: real
  col_user_messages :: int
  col_agent_responses :: int
  col_interruptions :: int
  col_avg_stt_delay :: pyfloat
  col_avg_ttft :: pyfloat
  col_avg_ttfd :: pyfloat
  col_avg_total_latency :: pyfloat
  col_max_latency :: real
  col_min_latency :: real
  col_errors :: int
  col_latency_target_met :: bool

definition bind_exc :: "py_exc + 'a \<Rightarrow> ('a \<Rightarrow> py_exc + 'b) \<Rightarrow> py_exc + 'b" where
  "bind_exc r f = (case r of Inl e \<Rightarrow> Inl e | Inr x \<Rightarrow> f x)"

definition average :: "float_arith \<Rightarrow> real list \<Rightarrow> py_exc + pyfloat" where
  \<comment> \<open>\<open>sum(xs) / len(xs) if xs else 0\<close>\<close>
  "average fa xs =
     (if xs \<noteq> [] then truediv fa (py_sum fa xs) (Finite (real (length xs)))
      else Inr (Finite 0))"

definition max_or_zero :: "real list \<Rightarrow> py_exc + real" where
  \<comment> \<open>\<open>max(xs) if xs else 0\<close>\<close>
  "max_or_zero xs = (if xs \<noteq> [] then py_max xs else Inr 0)"

definition min_or_zero :: "real list \<Rightarrow> py_exc + real" where
  \<comment> \<open>\<open>min(xs) if xs else 0\<close>\<close>
  "min_or_zero xs = (if xs \<noteq> [] then py_min xs else Inr 0)"

definition summary_data :: "float_arith \<Rightarrow> metrics_dict \<Rightarrow> py_exc + row" where
  "summary_data fa m =
     bind_exc (average fa (stt_delays m)) (\<lambda>avg_stt.
     bind_exc (average fa (ttft_delays m)) (\<lambda>avg_ttft.
     bind_exc (average fa (ttfd_delays m)) (\<lambda>avg_ttfd.
     bind_exc (average fa (total_latencies m)) (\<lambda>avg_latency.
     bind_exc (max_or_zero (total_latencies m)) (\<lambda>max_l.
     bind_exc (min_or_zero (total_latencies m)) (\<lambda>min_l.
       Inr \<lparr>col_session_id = session_id m,
            col_start_time = start_time m,
            col_end_time = end_time m,
            col_total_duration = total_duration m,
            col_user_messages = user_messages m,
            col_agent_responses = agent_responses m,
            col_interruptions = interruptions_count m,
            col_avg_stt_delay = avg_stt,
            col_avg_ttft = avg_ttft,
            col_avg_ttfd = avg_ttfd,
            col_avg_total_latency = avg_latency,
            col_max_latency = max_l,
            col_min_latency = min_l,
            col_errors = errors m,
            col_latency_target_met = pf_less avg_latency (Finite 2.0)\<rparr>))))))"

subsection \<open>Export to the spreadsheet\<close>

text \<open>
  \<open>save_to_excel\<close> calls pandas and the file system. The model keeps, per file name, the
  rows of the table stored there, and lets each external call raise an \<open>Exception\<close>
  (the message, when it does). A call that raises leaves the rows as they were: so
  does a failing read, and a write that is refused; a write that fails half-way, and
  what it leaves in the file, is not modelled.

  \<open>pandas.read_excel\<close> does not return what \<open>to_excel\<close> was given. It returns one row
  for each row of the table, in order, and parses the cells again: the types of a
  column are inferred from the whole column, a string such as \<open>NA\<close> becomes a missing
  value, a string of digits a number. \<open>reparse\<close> is what it makes of a row of a table;
  like the float operations \<open>arith\<close> it is not defined here but taken as it is.
\<close>

record excel_env =
  arith :: float_arith
  reparse :: "row list \<Rightarrow> row \<Rightarrow> row"
  files :: "string \<rightharpoonup> row list"
  DataFrame_raises :: "string option"
  read_excel_raises :: "string option"
  concat_raises :: "string option"
  to_excel_raises :: "string option"

definition pd_DataFrame :: "excel_env \<Rightarrow> row \<Rightarrow> py_exc + row list" where
  "pd_DataFrame d r = (case DataFrame_raises d of Some m \<Rightarrow> Inl (Exc m) | None \<Rightarrow> Inr [r])"

definition os_path_exists :: "excel_env \<Rightarrow> string \<Rightarrow> bool" where
  "os_path_exists d filename = (files d filename \<noteq> None)"

definition pd_read_excel :: "excel_env \<Rightarrow> string \<Rightarrow> py_exc + row list" where
  "pd_read_excel d filename =
     (case read_excel_raises d of
        Some m \<Rightarrow> Inl (Exc m)
      | None \<Rightarrow>
          (case files d filename of
             None \<Rightarrow> Inl (Exc ''FileNotFoundError'')
           | Some rows \<Rightarrow> Inr (map (reparse d rows) rows)))"

definition pd_concat :: "excel_env \<Rightarrow> row list \<Rightarrow> row list \<Rightarrow> py_exc + row list" where
  "pd_concat d existing_df df =
     (case concat_raises d of Some m \<Rightarrow> Inl (Exc m) | None \<Rightarrow> Inr (existing_df @ df))"

definition to_excel :: "excel_env \<Rightarrow> string \<Rightarrow> row list \<Rightarrow> py_exc + excel_env" where
  "to_excel d filename df =
     (case to_excel_raises d of
        Some m \<Rightarrow> Inl (Exc m)
      | None \<Rightarrow> Inr (d\<lparr>files := (files d)(filename \<mapsto> df)\<rparr>))"

definition save_to_excel_try :: "string \<Rightarrow> tracker \<Rightarrow> excel_env \<Rightarrow> py_exc + excel_env" where
  \<comment> \<open>the body of the \<open>try\<close>\<close>
  "save_to_excel_try filename tr d =
     bind_exc (summary_data (arith d) (metrics tr)) (\<lambda>summary.
     bind_exc (pd_DataFrame d summary) (\<lambda>df.
     bind_exc (if os_path_exists d filename
               then bind_exc (pd_read_excel d filename) (\<lambda>existing_df.
                      pd_concat d existing_df df)
               else Inr df) (\<lambda>df.
       to_excel d filename df)))"

definition save_to_excel :: "string \<Rightarrow> tracker \<Rightarrow> excel_env \<Rightarrow> py_exc option \<times> excel_env" where
  \<comment> \<open>\<open>except Exception\<close> logs and returns; anything else would propagate\<close>
  "save_to_excel filename tr d =
     (case save_to_excel_try filename tr d of
        Inr d' \<Rightarrow> (None, d')
      | Inl (Exc m) \<Rightarrow> (None, d)
      | Inl (BaseExc m) \<Rightarrow> (Some (BaseExc m), d))"

definition default_filename :: string where
  "default_filename = ''voice_agent_metrics.xlsx''"

section \<open>VoiceAgent (main.py)\<close>

text \<open>
  The session runs in a world: the clock, the agent's tracker, the spreadsheet files,
  the audio handed to \<open>ctx.send_audio\<close>, and the tracker methods invoked so far, in
  order. A statement is a function from the world to a result and a world.
  Time passes only while the coroutine is suspended: an awaited call returns after its
  duration with its result or its exception.
\<close>

datatype call =
    StartSession string
  | RecordSttDelay real
  | RecordTtft real
  | RecordTtfd real
  | RecordTotalLatency real
  | RecordInterruption
  | RecordUserMessage
  | RecordAgentResponse
  | RecordError
  | EndSession
  | SaveToExcel string

record world =
  now :: real
  metrics_tracker :: tracker
  disk :: excel_env
  sent :: "audio list"
  calls :: "call list"

type_synonym 'a stmt = "world \<Rightarrow> (py_exc + 'a) \<times> world"

definition bind_stmt :: "'a stmt \<Rightarrow> ('a \<Rightarrow> 'b stmt) \<Rightarrow> 'b stmt" where
  "bind_stmt m f w = (case m w of (Inl e, w') \<Rightarrow> (Inl e, w') | (Inr x, w') \<Rightarrow> f x w')"

definition time_time :: "real stmt" where
  "time_time w = (Inr (now w), w)"

definition await :: "real \<times> (py_exc + 'a) \<Rightarrow> 'a stmt" where
  "await c w = (snd c, w\<lparr>now := now w + fst c\<rparr>)"

definition tracker_call :: "call \<Rightarrow> real \<Rightarrow> tracker \<Rightarrow> tracker" where
  "tracker_call c t tr =
     (case c of
        StartSession sid \<Rightarrow> start_session t sid tr
      | RecordSttDelay d \<Rightarrow> record_stt_delay d tr
      | RecordTtft d \<Rightarrow> record_ttft d tr
      | RecordTtfd d \<Rightarrow> record_ttfd d tr
      | RecordTotalLatency d \<Rightarrow> record_total_latency d tr
      | RecordInterruption \<Rightarrow> record_interruption tr
      | RecordUserMessage \<Rightarrow> record_user_message tr
      | RecordAgentResponse \<Rightarrow> record_agent_response tr
      | RecordError \<Rightarrow> record_error tr
      | EndSession \<Rightarrow> end_session t tr
      | SaveToExcel filename \<Rightarrow> tr)"

definition invoke :: "call \<Rightarrow> unit stmt" where
  \<comment> \<open>\<open>self.metrics_tracker.<method>(...)\<close>, noted in \<open>calls\<close>\<close>
  "invoke c w =
     (let w1 = w\<lparr>calls := calls w @ [c],
                 metrics_tracker := tracker_call c (now w) (metrics_tracker w)\<rparr>
      in case c of
           SaveToExcel filename \<Rightarrow>
             (case save_to_excel filename (metrics_tracker w) (disk w) of
                (None, d) \<Rightarrow> (Inr (), w1\<lparr>disk := d\<rparr>)
              | (Some e, d) \<Rightarrow> (Inl e, w1\<lparr>disk := d\<rparr>))
         | _ \<Rightarrow> (Inr (), w1))"

text \<open>
  The plugins are external: a client is what its awaited call returns, after how long.
  \<open>create_services\<close> stands for lines 117 to 150, which pick and construct the three
  clients from the environment variables, and may raise. The audio stream is the
  sequence of what \<open>async for\<close> receives: a chunk, arriving at an instant, or an
  exception of the transport; the end of the list is the end of the stream. A run of
  the loop that is over has received finitely many items, so the stream of a run is a
  list; a stream that never ends and never raises keeps the loop running, and nothing
  below speaks of it.
\<close>

record services =
  stt :: "audio \<Rightarrow> real \<times> (py_exc + string)"
  llm_service :: "string \<Rightarrow> real \<times> (py_exc + string)"
  tts :: "string \<Rightarrow> real \<times> (py_exc + audio)"

datatype stream_item = Chunk real audio | StreamRaises real py_exc

record job_context =
  create_services :: "py_exc + services"
  audio_stream :: "stream_item list"
  ctx_send_audio :: "audio \<Rightarrow> real \<times> (py_exc + unit)"

definition send_audio :: "job_context \<Rightarrow> audio \<Rightarrow> unit stmt" where
  "send_audio ctx a =
     bind_stmt (await (ctx_send_audio ctx a)) (\<lambda>_ w. (Inr (), w\<lparr>sent := sent w @ [a]\<rparr>))"

definition cycle :: "services \<Rightarrow> job_context \<Rightarrow> audio \<Rightarrow> unit stmt" where
  \<comment> \<open>the body of the \<open>async for\<close>\<close>
  "cycle sv ctx audio_chunk =
     bind_stmt time_time (\<lambda>start_stt.
     bind_stmt (await (stt sv audio_chunk)) (\<lambda>user_text.
     bind_stmt time_time (\<lambda>t1.
     bind_stmt (invoke (RecordSttDelay (t1 - start_stt))) (\<lambda>_.
     bind_stmt (invoke RecordUserMessage) (\<lambda>_.
     bind_stmt time_time (\<lambda>start_llm.
     bind_stmt (await (llm_service sv user_text)) (\<lambda>response_text.
     bind_stmt time_time (\<lambda>t2.
     bind_stmt (invoke (RecordTtft (t2 - start_llm))) (\<lambda>_.
     bind_stmt time_time (\<lambda>start_tts.
     bind_stmt (await (tts sv response_text)) (\<lambda>audio_response.
     bind_stmt time_time (\<lambda>t3.
     bind_stmt (invoke (RecordTtfd (t3 - start_llm))) (\<lambda>_.
     bind_stmt (invoke RecordAgentResponse) (\<lambda>_.
       send_audio ctx audio_response))))))))))))))"

definition arrive :: "real \<Rightarrow> world \<Rightarrow> world" where
  \<comment> \<open>the loop is suspended until the next item of the stream is there\<close>
  "arrive arrival w = w\<lparr>now := max (now w) arrival\<rparr>"

fun async_for :: "services \<Rightarrow> job_context \<Rightarrow> stream_item list \<Rightarrow> unit stmt" where
  "async_for sv ctx [] w = (Inr (), w)"
| "async_for sv ctx (StreamRaises arrival e # rest) w = (Inl e, arrive arrival w)"
| "async_for sv ctx (Chunk arrival a # rest) w =
     (case cycle sv ctx a (arrive arrival w) of
        (Inl e, w') \<Rightarrow> (Inl e, w')
      | (Inr _, w') \<Rightarrow> async_for sv ctx rest w')"

definition try_except_Exception :: "unit stmt \<Rightarrow> unit stmt \<Rightarrow> unit stmt" where
  \<comment> \<open>\<open>try: body except Exception as e: handler\<close>\<close>
  "try_except_Exception body handler w =
     (case body w of
        (Inl (Exc m), w') \<Rightarrow> handler w'
      | (r, w') \<Rightarrow> (r, w'))"

definition try_finally :: "unit stmt \<Rightarrow> unit stmt \<Rightarrow> unit stmt" where
  \<comment> \<open>an exception of the \<open>finally\<close> block replaces a pending one\<close>
  "try_finally body final w =
     (case body w of
        (r, w') \<Rightarrow> (case final w' of (Inl e, w'') \<Rightarrow> (Inl e, w'') | (Inr _, w'') \<Rightarrow> (r, w'')))"

definition try_body :: "job_context \<Rightarrow> unit stmt" where
  "try_body ctx w =
     (case create_services ctx of
        Inl e \<Rightarrow> (Inl e, w)
      | Inr sv \<Rightarrow> async_for sv ctx (audio_stream ctx) w)"

definition teardown :: "unit stmt" where
  \<comment> \<open>the \<open>finally\<close> block\<close>
  "teardown = bind_stmt (invoke EndSession) (\<lambda>_. invoke (SaveToExcel default_filename))"

definition entrypoint :: "job_context \<Rightarrow> unit stmt" where
  "entrypoint ctx =
     bind_stmt time_time (\<lambda>t.
     bind_stmt (invoke (StartSession (''session_'' @ str_int (py_int t)))) (\<lambda>_.
       try_finally (try_except_Exception (try_body ctx) (invoke RecordError)) teardown))"

section \<open>Config (config.py)\<close>

text \<open>
  The class attributes that \<open>get_service_priority\<close> and \<open>validate_config\<close> read, as
  \<open>os.getenv\<close> left them: a key that is not set is \<open>None\<close>. \<open>if key:\<close> is false for
  \<open>None\<close> and for the empty string. The dicts keep their insertion order, which is the
  order \<open>items()\<close> iterates in: association lists.
\<close>

record config =
  LIVEKIT_URL :: string
  LIVEKIT_API_KEY :: "string option"
  LIVEKIT_API_SECRET :: "string option"
  DEEPGRAM_API_KEY :: "string option"
  OPENAI_API_KEY :: "string option"
  GROQ_API_KEY :: "string option"
  ELEVENLABS_API_KEY :: "string option"
  CARTESIA_API_KEY :: "string option"
  TARGET_LATENCY :: real

definition truthy :: "string option \<Rightarrow> bool" where
  "truthy k = (case k of None \<Rightarrow> False | Some s \<Rightarrow> s \<noteq> [])"

definition upper_char :: "char \<Rightarrow> char" where
  "upper_char c =
     (let n = (of_char c :: nat) in if 97 \<le> n \<and> n \<le> 122 then char_of (n - 32) else c)"

definition upper :: "string \<Rightarrow> string" where
  "upper s = map upper_char s"

definition get_service_priority :: "config \<Rightarrow> (string \<times> string list) list" where
  "get_service_priority cls =
     [(''stt'',
         (if truthy (DEEPGRAM_API_KEY cls) then [''deepgram''] else []) @
         (if truthy (OPENAI_API_KEY cls) then [''openai''] else [])),
      (''llm'',
         (if truthy (GROQ_API_KEY cls) then [''groq''] else []) @
         (if truthy (OPENAI_API_KEY cls) then [''openai''] else [])),
      (''tts'',
         (if truthy (ELEVENLABS_API_KEY cls) then [''elevenlabs''] else []) @
         (if truthy (CARTESIA_API_KEY cls) then [''cartesia''] else []) @
         (if truthy (OPENAI_API_KEY cls) then [''openai''] else []))]"

record status =
  valid :: bool
  status_errors :: "string list"
  warnings :: "string list"
  available_services :: "(string \<times> string list) list"

definition no_service_configured :: "string \<Rightarrow> string" where
  \<comment> \<open>\<open>f"No {service_type.upper()} service configured"\<close>\<close>
  "no_service_configured service_type = ''No '' @ upper service_type @ '' service configured''"

definition check_service :: "status \<Rightarrow> string \<times> string list \<Rightarrow> status" where
  \<comment> \<open>the body of the loop over \<open>priorities.items()\<close>\<close>
  "check_service st item =
     (case item of
        (service_type, providers) \<Rightarrow>
          (let st1 = st\<lparr>available_services :=
                          AList.update service_type providers (available_services st)\<rparr>
           in if providers = []
              then st1\<lparr>status_errors := status_errors st1 @ [no_service_configured service_type],
                       valid := False\<rparr>
              else st1))"

definition validate_config :: "config \<Rightarrow> status" where
  "validate_config cls =
     (let status0 = \<lparr>valid = True, status_errors = [], warnings = [], available_services = []\<rparr>;
          status1 =
            (if \<not> truthy (LIVEKIT_API_KEY cls) \<or> \<not> truthy (LIVEKIT_API_SECRET cls)
             then status0\<lparr>status_errors :=
                            status_errors status0 @ [''LiveKit API key and secret are required''],
                          valid := False\<rparr>
             else status0);
          priorities = get_service_priority cls;
          status2 = foldl check_service status1 priorities
      in if TARGET_LATENCY cls > 3.0
         then status2\<lparr>warnings :=
                        warnings status2 @ [''Target latency > 3s may impact user experience'']\<rparr>
         else status2)"

section \<open>Notions used in the statements\<close>

text \<open>
  What the theorems below speak about: the metrics of the agent's tracker, the rows a
  file holds, the tracker calls of the teardown, and the two properties of a statement
  that the loop's proofs carry along (\<open>quiet\<close>: it adds no teardown call to the trace;
  \<open>keeps\<close>: it leaves the files, the interruption count and the error count alone).
\<close>

definition world_metrics :: "world \<Rightarrow> metrics_dict" where
  "world_metrics w = metrics (metrics_tracker w)"

definition after :: "call \<Rightarrow> world \<Rightarrow> metrics_dict" where
  "after c w = world_metrics (snd (invoke c w))"

definition session_name :: "real \<Rightarrow> string" where
  "session_name t = ''session_'' @ str_int (py_int t)"

definition started :: "world \<Rightarrow> world" where
  \<comment> \<open>the world when the \<open>try\<close> block is entered\<close>
  "started w = snd (invoke (StartSession (session_name (now w))) w)"

fun is_teardown :: "call \<Rightarrow> bool" where
  "is_teardown EndSession = True"
| "is_teardown (SaveToExcel f) = True"
| "is_teardown c = False"

definition quiet :: "'a stmt \<Rightarrow> bool" where
  "quiet m = (\<forall>w. \<exists>cs. calls (snd (m w)) = calls w @ cs \<and> filter is_teardown cs = [])"

definition kept :: "world \<Rightarrow> excel_env \<times> int \<times> int" where
  "kept w =
     (disk w, interruptions_count (metrics (metrics_tracker w)),
      errors (metrics (metrics_tracker w)))"

definition keeps :: "'a stmt \<Rightarrow> bool" where
  "keeps m = (\<forall>w. kept (snd (m w)) = kept w)"

definition provider_failure :: "services \<Rightarrow> audio \<Rightarrow> string option" where
  \<comment> \<open>the message of the \<open>Exception\<close> that the first failing provider call of a cycle raises\<close>
  "provider_failure sv a =
     (case snd (stt sv a) of
        Inl (Exc m) \<Rightarrow> Some m
      | Inl (BaseExc m) \<Rightarrow> None
      | Inr user_text \<Rightarrow>
          (case snd (llm_service sv user_text) of
             Inl (Exc m) \<Rightarrow> Some m
           | Inl (BaseExc m) \<Rightarrow> None
           | Inr response_text \<Rightarrow>
               (case snd (tts sv response_text) of
                  Inl (Exc m) \<Rightarrow> Some m
                | _ \<Rightarrow> None)))"

definition no_faults :: "excel_env \<Rightarrow> bool" where
  "no_faults d =
     (DataFrame_raises d = None \<and> read_excel_raises d = None \<and> concat_raises d = None
      \<and> to_excel_raises d = None)"

definition stored :: "excel_env \<Rightarrow> string \<Rightarrow> row list" where
  "stored d f = (case files d f of None \<Rightarrow> [] | Some rows \<Rightarrow> rows)"

definition float_mean :: "float_arith \<Rightarrow> real list \<Rightarrow> pyfloat" where
  "float_mean fa xs =
     (if xs = [] then Finite 0 else f_truediv fa (py_sum fa xs) (Finite (real (length xs))))"

definition summary_row :: "float_arith \<Rightarrow> metrics_dict \<Rightarrow> row" where
  "summary_row fa m =
     \<lparr>col_session_id = session_id m,
      col_start_time = start_time m,
      col_end_time = end_time m,
      col_total_duration = total_duration m,
      col_user_messages = user_messages m,
      col_agent_responses = agent_responses m,
      col_interruptions = interruptions_count m,
      col_avg_stt_delay = float_mean fa (stt_delays m),
      col_avg_ttft = float_mean fa (ttft_delays m),
      col_avg_ttfd = float_mean fa (ttfd_delays m),
      col_avg_total_latency = float_mean fa (total_latencies m),
      col_max_latency = (if total_latencies m = [] then 0 else Max (set (total_latencies m))),
      col_min_latency = (if total_latencies m = [] then 0 else Min (set (total_latencies m))),
      col_errors = errors m,
      col_latency_target_met = pf_less (float_mean fa (total_latencies m)) (Finite 2)\<rparr>"

definition stage_errors :: "string \<times> string list \<Rightarrow> string list" where
  "stage_errors item = (if snd item = [] then [no_service_configured (fst item)] else [])"

definition stt_providers :: "config \<Rightarrow> string list" where
  "stt_providers cls =
     (if truthy (DEEPGRAM_API_KEY cls) then [''deepgram''] else []) @
     (if truthy (OPENAI_API_KEY cls) then [''openai''] else [])"

definition llm_providers :: "config \<Rightarrow> string list" where
  "llm_providers cls =
     (if truthy (GROQ_API_KEY cls) then [''groq''] else []) @
     (if truthy (OPENAI_API_KEY cls) then [''openai''] else [])"

definition tts_providers :: "config \<Rightarrow> string list" where
  "tts_providers cls =
     (if truthy (ELEVENLABS_API_KEY cls) then [''elevenlabs''] else []) @
     (if truthy (CARTESIA_API_KEY cls) then [''cartesia''] else []) @
     (if truthy (OPENAI_API_KEY cls) then [''openai''] else [])"

subsection \<open>Concrete sessions and configurations\<close>

text \<open>
  The examples need float operations and a reading of rows to run. \<open>exact_arith\<close> does
  not round: it is what the floats of the platform do where the exact result is itself
  a float, as on the small integers and halves that the examples sum and divide, and
  not what they do in general. \<open>empty_disk\<close> reads every row back as it was written;
  \<open>na_disk\<close> reads the string \<open>NA\<close> as a missing value, as pandas does.
\<close>

fun exact_truediv :: "pyfloat \<Rightarrow> pyfloat \<Rightarrow> pyfloat" where
  "exact_truediv (Finite a) (Finite b) = Finite (a / b)"
| "exact_truediv NaN b = NaN"
| "exact_truediv a NaN = NaN"
| "exact_truediv (Finite a) b = Finite 0"
| "exact_truediv PosInf (Finite b) = (if 0 \<le> b then PosInf else NegInf)"
| "exact_truediv NegInf (Finite b) = (if 0 \<le> b then NegInf else PosInf)"
| "exact_truediv a b = NaN"

definition exact_arith :: float_arith where
  "exact_arith = \<lparr>py_sum = (\<lambda>xs. Finite (sum_list xs)), f_truediv = exact_truediv\<rparr>"

definition empty_disk :: excel_env where
  "empty_disk =
     \<lparr>arith = exact_arith, reparse = (\<lambda>rows r. r), files = Map.empty,
      DataFrame_raises = None, read_excel_raises = None,
      concat_raises = None, to_excel_raises = None\<rparr>"

definition old_row :: row where
  "old_row =
     \<lparr>col_session_id = Some ''session_900'', col_start_time = Some 900, col_end_time = Some 950,
      col_total_duration = 50, col_user_messages = 1, col_agent_responses = 1,
      col_interruptions = 0, col_avg_stt_delay = Finite 1, col_avg_ttft = Finite 2,
      col_avg_ttfd = Finite 5, col_avg_total_latency = Finite 0, col_max_latency = 0,
      col_min_latency = 0, col_errors = 0, col_latency_target_met = True\<rparr>"

definition used_disk :: excel_env where
  "used_disk = empty_disk\<lparr>files := [default_filename \<mapsto> [old_row]]\<rparr>"

definition na_row :: row where
  \<comment> \<open>the row of a session that was started as \<open>start_session("NA")\<close>\<close>
  "na_row = old_row\<lparr>col_session_id := Some ''NA''\<rparr>"

definition na_reparse :: "row list \<Rightarrow> row \<Rightarrow> row" where
  "na_reparse rows r =
     (if col_session_id r = Some ''NA'' then r\<lparr>col_session_id := None\<rparr> else r)"

definition na_disk :: excel_env where
  "na_disk = empty_disk\<lparr>reparse := na_reparse, files := [default_filename \<mapsto> [na_row]]\<rparr>"

definition VoiceAgent_init :: "real \<Rightarrow> excel_env \<Rightarrow> world" where
  \<comment> \<open>a new \<open>VoiceAgent\<close>, at time \<open>t\<close>\<close>
  "VoiceAgent_init t d =
     \<lparr>now = t, metrics_tracker = MetricsTracker_init, disk = d, sent = [], calls = []\<rparr>"

definition scripted_services :: services where
  "scripted_services =
     \<lparr>stt = (\<lambda>a. if a = ''segment 2'' then (1, Inl (Exc ''ProviderError''))
                  else (1, Inr ''hello'')),
      llm_service = (\<lambda>u. (2, Inr ''hi there'')),
      tts = (\<lambda>r. (3, Inr ''bytes''))\<rparr>"

definition three_segments :: job_context where
  "three_segments =
     \<lparr>create_services = Inr scripted_services,
      audio_stream = [Chunk 1010 ''segment 1'', Chunk 1020 ''segment 2'', Chunk 1030 ''segment 3''],
      ctx_send_audio = (\<lambda>a. (0, Inr ()))\<rparr>"



definition cancelled_session :: job_context where
  \<comment> \<open>the task is cancelled while the loop waits for the first segment\<close>
  "cancelled_session =
     \<lparr>create_services = Inr scripted_services,
      audio_stream = [StreamRaises 1003 (BaseExc ''CancelledError'')],
      ctx_send_audio = (\<lambda>a. (0, Inr ()))\<rparr>"

definition locked_disk :: excel_env where
  \<comment> \<open>the metrics file cannot be written\<close>
  "locked_disk = used_disk\<lparr>to_excel_raises := Some ''PermissionError''\<rparr>"

definition stt_only :: "real list \<Rightarrow> metrics_dict" where
  "stt_only xs = (metrics MetricsTracker_init)\<lparr>stt_delays := xs\<rparr>"

definition latencies_only :: "real list \<Rightarrow> metrics_dict" where
  "latencies_only xs = (metrics MetricsTracker_init)\<lparr>total_latencies := xs\<rparr>"

definition missing_keys :: config where
  "missing_keys =
     \<lparr>LIVEKIT_URL = ''ws://localhost:7880'', LIVEKIT_API_KEY = Some ''key'',
      LIVEKIT_API_SECRET = Some ''secret'', DEEPGRAM_API_KEY = None, OPENAI_API_KEY = Some [],
      GROQ_API_KEY = Some ''gsk'', ELEVENLABS_API_KEY = None, CARTESIA_API_KEY = Some ''c'',
      TARGET_LATENCY = 2\<rparr>"

definition all_keys :: config where
  "all_keys = missing_keys\<lparr>DEEPGRAM_API_KEY := Some ''dg''\<rparr>"

definition strict_target :: config where
  "strict_target = all_keys\<lparr>TARGET_LATENCY := 1\<rparr>"

section \<open>Lemmas\<close>

declare str_nat.simps [simp del]

subsection \<open>Sums, maxima and the summary row\<close>

lemma float_mean_exact:
  "float_mean exact_arith xs = Finite (if xs = [] then 0 else sum_list xs / real (length xs))"
  by (simp add: float_mean_def exact_arith_def)

lemma foldl_max_Max: "foldl max (y::real) ys = Max (set (y # ys))"
proof (induction ys arbitrary: y)
  case Nil
  show ?case by simp
next
  case (Cons z zs)
  have "foldl max y (z # zs) = Max (set (max y z # zs))" using Cons by simp
  also have "\<dots> = Max (set (y # z # zs))"
    by (cases zs) (simp_all add: max.assoc)
  finally show ?case .
qed

lemma foldl_min_Min: "foldl min (y::real) ys = Min (set (y # ys))"
proof (induction ys arbitrary: y)
  case Nil
  show ?case by simp
next
  case (Cons z zs)
  have "foldl min y (z # zs) = Min (set (min y z # zs))" using Cons by simp
  also have "\<dots> = Min (set (y # z # zs))"
    by (cases zs) (simp_all add: min.assoc)
  finally show ?case .
qed

lemma average_eq: "average fa xs = Inr (float_mean fa xs)"
  by (simp add: average_def truediv_def float_mean_def)

lemma max_or_zero_eq: "max_or_zero xs = Inr (if xs = [] then 0 else Max (set xs))"
  by (cases xs) (simp_all add: max_or_zero_def py_max_def foldl_max_Max del: foldl_Cons)

lemma min_or_zero_eq: "min_or_zero xs = Inr (if xs = [] then 0 else Min (set xs))"
  by (cases xs) (simp_all add: min_or_zero_def py_min_def foldl_min_Min del: foldl_Cons)

lemma summary_data_eq: "summary_data fa m = Inr (summary_row fa m)"
  by (simp add: summary_data_def bind_exc_def average_eq max_or_zero_eq min_or_zero_eq
      summary_row_def)

subsection \<open>The export\<close>

lemma save_to_excel_try_not_base: "save_to_excel_try f tr d \<noteq> Inl (BaseExc m)"
  by (auto simp: save_to_excel_try_def summary_data_eq bind_exc_def pd_DataFrame_def
      pd_read_excel_def pd_concat_def to_excel_def split: option.splits sum.splits if_splits)

lemma save_to_excel_returns: "fst (save_to_excel f tr d) = None"
  using save_to_excel_try_not_base[of f tr d]
  by (auto simp: save_to_excel_def split: sum.splits py_exc.splits)

lemma save_to_excel_appends:
  assumes "no_faults d"
  shows "save_to_excel f tr d =
           (None, d\<lparr>files := (files d)
                     (f \<mapsto> map (reparse d (stored d f)) (stored d f)
                              @ [summary_row (arith d) (metrics tr)])\<rparr>)"
  using assms
  by (auto simp: no_faults_def save_to_excel_def save_to_excel_try_def summary_data_eq
      bind_exc_def pd_DataFrame_def pd_read_excel_def pd_concat_def to_excel_def
      os_path_exists_def stored_def split: option.splits)

lemma save_to_excel_refused:
  assumes "DataFrame_raises d = None" and "read_excel_raises d = None"
    and "concat_raises d = None" and "to_excel_raises d = Some m"
  shows "save_to_excel f tr d = (None, d)"
  using assms
  by (auto simp: save_to_excel_def save_to_excel_try_def summary_data_eq
      bind_exc_def pd_DataFrame_def pd_read_excel_def pd_concat_def to_excel_def
      os_path_exists_def split: option.splits)

subsection \<open>Tracker calls and the cycle, executed\<close>

lemma invoke_simps:
  "invoke (StartSession sid) w =
     (Inr (), w\<lparr>calls := calls w @ [StartSession sid],
               metrics_tracker := start_session (now w) sid (metrics_tracker w)\<rparr>)"
  "invoke (RecordSttDelay x) w =
     (Inr (), w\<lparr>calls := calls w @ [RecordSttDelay x],
               metrics_tracker := record_stt_delay x (metrics_tracker w)\<rparr>)"
  "invoke (RecordTtft x) w =
     (Inr (), w\<lparr>calls := calls w @ [RecordTtft x],
               metrics_tracker := record_ttft x (metrics_tracker w)\<rparr>)"
  "invoke (RecordTtfd x) w =
     (Inr (), w\<lparr>calls := calls w @ [RecordTtfd x],
               metrics_tracker := record_ttfd x (metrics_tracker w)\<rparr>)"
  "invoke (RecordTotalLatency x) w =
     (Inr (), w\<lparr>calls := calls w @ [RecordTotalLatency x],
               metrics_tracker := record_total_latency x (metrics_tracker w)\<rparr>)"
  "invoke RecordInterruption w =
     (Inr (), w\<lparr>calls := calls w @ [RecordInterruption],
               metrics_tracker := record_interruption (metrics_tracker w)\<rparr>)"
  "invoke RecordUserMessage w =
     (Inr (), w\<lparr>calls := calls w @ [RecordUserMessage],
               metrics_tracker := record_user_message (metrics_tracker w)\<rparr>)"
  "invoke RecordAgentResponse w =
     (Inr (), w\<lparr>calls := calls w @ [RecordAgentResponse],
               metrics_tracker := record_agent_response (metrics_tracker w)\<rparr>)"
  "invoke RecordError w =
     (Inr (), w\<lparr>calls := calls w @ [RecordError],
               metrics_tracker := record_error (metrics_tracker w)\<rparr>)"
  "invoke EndSession w =
     (Inr (), w\<lparr>calls := calls w @ [EndSession],
               metrics_tracker := end_session (now w) (metrics_tracker w)\<rparr>)"
  by (simp_all add: invoke_def tracker_call_def)

lemma invoke_calls: "calls (snd (invoke c w)) = calls w @ [c]"
  by (simp add: invoke_def Let_def split: call.splits prod.splits option.splits)

lemma send_audio_exec:
  "send_audio ctx au w =
     (case snd (ctx_send_audio ctx au) of
        Inl e \<Rightarrow> (Inl e, w\<lparr>now := now w + fst (ctx_send_audio ctx au)\<rparr>)
      | Inr x \<Rightarrow> (Inr (), w\<lparr>now := now w + fst (ctx_send_audio ctx au), sent := sent w @ [au]\<rparr>))"
  by (simp add: send_audio_def bind_stmt_def await_def split: sum.splits)

lemma cycle_stt_raises:
  assumes "stt sv a = (d1, Inl e)"
  shows "cycle sv ctx a w = (Inl e, w\<lparr>now := now w + d1\<rparr>)"
  using assms by (simp add: cycle_def bind_stmt_def time_time_def await_def)

lemma cycle_llm_raises:
  assumes "stt sv a = (d1, Inr u)" and "llm_service sv u = (d2, Inl e)"
  shows "cycle sv ctx a w =
    (Inl e, w\<lparr>now := now w + d1 + d2,
              calls := calls w @ [RecordSttDelay d1, RecordUserMessage],
              metrics_tracker := record_user_message (record_stt_delay d1 (metrics_tracker w))\<rparr>)"
  using assms by (simp add: cycle_def bind_stmt_def time_time_def await_def invoke_simps)

lemma cycle_tts_raises:
  assumes "stt sv a = (d1, Inr u)" and "llm_service sv u = (d2, Inr r)"
    and "tts sv r = (d3, Inl e)"
  shows "cycle sv ctx a w =
    (Inl e, w\<lparr>now := now w + d1 + d2 + d3,
              calls := calls w @ [RecordSttDelay d1, RecordUserMessage, RecordTtft d2],
              metrics_tracker :=
                record_ttft d2 (record_user_message (record_stt_delay d1 (metrics_tracker w)))\<rparr>)"
  using assms by (simp add: cycle_def bind_stmt_def time_time_def await_def invoke_simps)

lemma cycle_synthesized:
  assumes "stt sv a = (d1, Inr u)" and "llm_service sv u = (d2, Inr r)"
    and "tts sv r = (d3, Inr au)"
  shows "cycle sv ctx a w =
    send_audio ctx au
      (w\<lparr>now := now w + d1 + d2 + d3,
         calls := calls w @ [RecordSttDelay d1, RecordUserMessage, RecordTtft d2,
                             RecordTtfd (d2 + d3), RecordAgentResponse],
         metrics_tracker :=
           record_agent_response (record_ttfd (d2 + d3) (record_ttft d2
             (record_user_message (record_stt_delay d1 (metrics_tracker w)))))\<rparr>)"
  using assms by (simp add: cycle_def bind_stmt_def time_time_def await_def invoke_simps)

lemma cycle_ctx_stream: "cycle sv (ctx\<lparr>audio_stream := xs\<rparr>) a = cycle sv ctx a"
  by (simp add: cycle_def send_audio_def)

lemma async_for_ctx_stream:
  "async_for sv (ctx\<lparr>audio_stream := xs\<rparr>) items w = async_for sv ctx items w"
proof (induction items arbitrary: w)
  case Nil
  show ?case by simp
next
  case (Cons it items)
  show ?case
    by (cases it) (simp_all add: cycle_ctx_stream Cons split: prod.splits sum.splits)
qed

lemma async_for_append:
  "async_for sv ctx (xs @ ys) w =
     (case async_for sv ctx xs w of
        (Inl e, w') \<Rightarrow> (Inl e, w')
      | (Inr u, w') \<Rightarrow> async_for sv ctx ys w')"
proof (induction xs arbitrary: w)
  case Nil
  show ?case by simp
next
  case (Cons it xs)
  show ?case
  proof (cases it)
    case (StreamRaises t e)
    then show ?thesis by simp
  next
    case (Chunk t a)
    then show ?thesis using Cons by (simp split: prod.splits sum.splits)
  qed
qed

lemma cycle_provider_failure:
  assumes "provider_failure sv a = Some m"
  shows "\<exists>w'. cycle sv ctx a w = (Inl (Exc m), w') \<and> sent w' = sent w"
proof -
  obtain d1 r1 where s: "stt sv a = (d1, r1)" by (cases "stt sv a")
  show ?thesis
  proof (cases r1)
    case (Inl e)
    then have "e = Exc m"
      using assms s by (simp add: provider_failure_def split: py_exc.splits)
    then show ?thesis using s Inl by (simp add: cycle_stt_raises)
  next
    case u: (Inr u)
    obtain d2 r2 where l: "llm_service sv u = (d2, r2)" by (cases "llm_service sv u")
    show ?thesis
    proof (cases r2)
      case (Inl e)
      then have "e = Exc m"
        using assms s u l by (simp add: provider_failure_def split: py_exc.splits)
      then show ?thesis using s u l Inl by (simp add: cycle_llm_raises)
    next
      case r: (Inr r)
      obtain d3 r3 where t: "tts sv r = (d3, r3)" by (cases "tts sv r")
      show ?thesis
      proof (cases r3)
        case (Inl e)
        then have "e = Exc m"
          using assms s u l r t by (simp add: provider_failure_def split: py_exc.splits)
        then show ?thesis using s u l r t Inl by (simp add: cycle_tts_raises)
      next
        case (Inr au)
        then have False using assms s u l r t by (simp add: provider_failure_def)
        then show ?thesis ..
      qed
    qed
  qed
qed

lemma teardown_exec:
  "teardown w =
     (Inr (), w\<lparr>calls := calls w @ [EndSession, SaveToExcel default_filename],
               metrics_tracker := end_session (now w) (metrics_tracker w),
               disk := snd (save_to_excel default_filename
                              (end_session (now w) (metrics_tracker w)) (disk w))\<rparr>)"
proof -
  obtain x d where s:
    "save_to_excel default_filename (end_session (now w) (metrics_tracker w)) (disk w) = (x, d)"
    by (cases "save_to_excel default_filename (end_session (now w) (metrics_tracker w)) (disk w)")
  have "x = None"
    using save_to_excel_returns[of default_filename "end_session (now w) (metrics_tracker w)"
        "disk w"] s
    by simp
  then show ?thesis using s
    by (simp add: teardown_def bind_stmt_def invoke_simps invoke_def Let_def tracker_call_def)
qed

lemma teardown_keeps:
  "errors (metrics (metrics_tracker (snd (teardown v)))) = errors (metrics (metrics_tracker v))"
  "interruptions_count (metrics (metrics_tracker (snd (teardown v))))
     = interruptions_count (metrics (metrics_tracker v))"
  "stt_delays (metrics (metrics_tracker (snd (teardown v))))
     = stt_delays (metrics (metrics_tracker v))"
  "sent (snd (teardown v)) = sent v"
  by (simp_all add: teardown_exec end_session_def split: option.splits)

lemma entrypoint_unfold:
  "entrypoint ctx w =
     try_finally (try_except_Exception (try_body ctx) (invoke RecordError)) teardown (started w)"
  by (simp add: entrypoint_def bind_stmt_def time_time_def started_def session_name_def
      invoke_simps)

lemma entrypoint_exec:
  "entrypoint ctx w =
     (case try_body ctx (started w) of
        (Inl (Exc m), w') \<Rightarrow> (Inr (), snd (teardown (snd (invoke RecordError w'))))
      | (r, w') \<Rightarrow> (r, snd (teardown w')))"
  by (simp add: entrypoint_unfold try_finally_def try_except_Exception_def teardown_exec
      invoke_simps split: prod.splits sum.splits py_exc.splits)

lemmas run_simps =
  entrypoint_exec try_body_def cycle_def bind_stmt_def time_time_def await_def invoke_simps
  send_audio_exec teardown_exec arrive_def started_def
  record_stt_delay_def record_ttft_def record_ttfd_def record_user_message_def
  record_agent_response_def record_error_def end_session_def start_session_def
  VoiceAgent_init_def MetricsTracker_init_def world_metrics_def

subsection \<open>The trace of the loop holds no teardown call\<close>

lemma quietI:
  "(\<And>w. \<exists>cs. calls (snd (m w)) = calls w @ cs \<and> filter is_teardown cs = []) \<Longrightarrow> quiet m"
  by (simp add: quiet_def)

lemma quiet_time_time: "quiet time_time"
  by (simp add: quiet_def time_time_def)

lemma quiet_await: "quiet (await c)"
  by (simp add: quiet_def await_def)

lemma quiet_invoke: "\<not> is_teardown c \<Longrightarrow> quiet (invoke c)"
  unfolding quiet_def
proof
  fix w
  assume "\<not> is_teardown c"
  then have "calls (snd (invoke c w)) = calls w @ [c] \<and> filter is_teardown [c] = []"
    by (simp add: invoke_calls)
  then show "\<exists>cs. calls (snd (invoke c w)) = calls w @ cs \<and> filter is_teardown cs = []"
    by blast
qed

lemma quiet_bind:
  assumes m: "quiet m" and f: "\<And>x. quiet (f x)"
  shows "quiet (bind_stmt m f)"
proof (rule quietI)
  fix w
  obtain r w1 where mw: "m w = (r, w1)" by (cases "m w")
  from m obtain cs where cs: "calls w1 = calls w @ cs" "filter is_teardown cs = []"
    unfolding quiet_def using mw by (metis snd_conv)
  show "\<exists>cs. calls (snd (bind_stmt m f w)) = calls w @ cs \<and> filter is_teardown cs = []"
  proof (cases r)
    case (Inl e)
    then show ?thesis using mw cs by (simp add: bind_stmt_def)
  next
    case (Inr x)
    from f[of x] obtain ds where
      ds: "calls (snd (f x w1)) = calls w1 @ ds" "filter is_teardown ds = []"
      unfolding quiet_def by blast
    have "calls (snd (bind_stmt m f w)) = calls w @ (cs @ ds)"
      using Inr mw cs ds by (simp add: bind_stmt_def)
    moreover have "filter is_teardown (cs @ ds) = []" using cs ds by simp
    ultimately show ?thesis by blast
  qed
qed

lemma quiet_send_audio: "quiet (send_audio ctx a)"
  unfolding send_audio_def
  by (rule quiet_bind[OF quiet_await]) (simp add: quiet_def)

lemma quiet_cycle: "quiet (cycle sv ctx a)"
  unfolding cycle_def
  by (intro quiet_bind quiet_time_time quiet_await quiet_invoke quiet_send_audio) simp_all

lemma calls_arrive: "calls (arrive t w) = calls w"
  by (simp add: arrive_def)

lemma quiet_async_for: "quiet (async_for sv ctx items)"
proof (induction items)
  case Nil
  show ?case by (simp add: quiet_def)
next
  case (Cons it items)
  show ?case
  proof (cases it)
    case (StreamRaises t e)
    then show ?thesis by (simp add: quiet_def calls_arrive)
  next
    case (Chunk t a)
    show ?thesis
    proof (rule quietI)
      fix w
      obtain r w1 where c: "cycle sv ctx a (arrive t w) = (r, w1)"
        by (cases "cycle sv ctx a (arrive t w)")
      from quiet_cycle[of sv ctx a] obtain cs where
        cs: "calls w1 = calls w @ cs" "filter is_teardown cs = []"
        unfolding quiet_def using c calls_arrive by (metis snd_conv)
      show "\<exists>cs. calls (snd (async_for sv ctx (it # items) w)) = calls w @ cs
              \<and> filter is_teardown cs = []"
      proof (cases r)
        case (Inl e)
        then show ?thesis using Chunk c cs by simp
      next
        case (Inr u)
        from Cons obtain ds where
          ds: "calls (snd (async_for sv ctx items w1)) = calls w1 @ ds"
              "filter is_teardown ds = []"
          unfolding quiet_def by blast
        have "calls (snd (async_for sv ctx (it # items) w)) = calls w @ (cs @ ds)"
          using Inr Chunk c cs ds by simp
        moreover have "filter is_teardown (cs @ ds) = []" using cs ds by simp
        ultimately show ?thesis by blast
      qed
    qed
  qed
qed

lemma quiet_try_body: "quiet (try_body ctx)"
proof (cases "create_services ctx")
  case (Inl e)
  then show ?thesis by (simp add: quiet_def try_body_def)
next
  case (Inr sv)
  have "try_body ctx = async_for sv ctx (audio_stream ctx)"
    using Inr by (auto simp: try_body_def)
  then show ?thesis by (simp add: quiet_async_for)
qed

lemma quiet_try_except:
  assumes b: "quiet body" and h: "quiet handler"
  shows "quiet (try_except_Exception body handler)"
proof (rule quietI)
  fix w
  obtain r w1 where bw: "body w = (r, w1)" by (cases "body w")
  from b obtain cs where cs: "calls w1 = calls w @ cs" "filter is_teardown cs = []"
    unfolding quiet_def using bw by (metis snd_conv)
  from h obtain ds where
    ds: "calls (snd (handler w1)) = calls w1 @ ds" "filter is_teardown ds = []"
    unfolding quiet_def by blast
  have "calls (snd (try_except_Exception body handler w)) = calls w @ cs
      \<or> calls (snd (try_except_Exception body handler w)) = calls w @ (cs @ ds)"
    using bw cs ds by (auto simp: try_except_Exception_def split: sum.splits py_exc.splits)
  moreover have "filter is_teardown (cs @ ds) = []" using cs ds by simp
  ultimately show "\<exists>cs. calls (snd (try_except_Exception body handler w)) = calls w @ cs
                     \<and> filter is_teardown cs = []"
    using cs(2) by blast
qed

lemma teardown_calls:
  "calls (snd (teardown w)) = calls w @ [EndSession, SaveToExcel default_filename]"
  by (simp add: teardown_exec)

lemma try_finally_calls:
  "calls (snd (try_finally body final w)) = calls (snd (final (snd (body w))))"
  by (simp add: try_finally_def split: prod.splits sum.splits)

subsection \<open>What the loop leaves alone\<close>

lemma keepsI: "(\<And>w. kept (snd (m w)) = kept w) \<Longrightarrow> keeps m"
  by (simp add: keeps_def)

lemma keepsD: "keeps m \<Longrightarrow> m w = (r, w') \<Longrightarrow> kept w' = kept w"
  by (metis keeps_def snd_conv)

lemma keeps_time_time: "keeps time_time"
  by (simp add: keeps_def time_time_def)

lemma keeps_await: "keeps (await c)"
  by (simp add: keeps_def await_def kept_def)

lemma keeps_bind:
  assumes m: "keeps m" and f: "\<And>x. keeps (f x)"
  shows "keeps (bind_stmt m f)"
proof (rule keepsI)
  fix w
  obtain r w1 where mw: "m w = (r, w1)" by (cases "m w")
  have k1: "kept w1 = kept w" using keepsD[OF m mw] .
  show "kept (snd (bind_stmt m f w)) = kept w"
  proof (cases r)
    case (Inl e)
    then show ?thesis using mw k1 by (simp add: bind_stmt_def)
  next
    case (Inr x)
    have "kept (snd (f x w1)) = kept w1" using f[of x] by (simp add: keeps_def)
    then show ?thesis using Inr mw k1 by (simp add: bind_stmt_def)
  qed
qed

lemma keeps_invoke:
  "keeps (invoke (RecordSttDelay x))"
  "keeps (invoke (RecordTtft x))"
  "keeps (invoke (RecordTtfd x))"
  "keeps (invoke RecordUserMessage)"
  "keeps (invoke RecordAgentResponse)"
  by (simp_all add: keeps_def invoke_simps kept_def record_stt_delay_def record_ttft_def
      record_ttfd_def record_user_message_def record_agent_response_def)

lemma keeps_send_audio: "keeps (send_audio ctx a)"
  by (simp add: keeps_def send_audio_exec kept_def split: sum.splits)

lemma keeps_cycle: "keeps (cycle sv ctx a)"
  unfolding cycle_def
  by (intro keeps_bind keeps_time_time keeps_await keeps_invoke keeps_send_audio)

lemma kept_arrive: "kept (arrive t w) = kept w"
  by (simp add: arrive_def kept_def)

lemma keeps_async_for: "keeps (async_for sv ctx items)"
proof (induction items)
  case Nil
  show ?case by (simp add: keeps_def)
next
  case (Cons it items)
  show ?case
  proof (cases it)
    case (StreamRaises t e)
    then show ?thesis by (simp add: keeps_def kept_arrive)
  next
    case (Chunk t a)
    show ?thesis
    proof (rule keepsI)
      fix w
      obtain r w1 where c: "cycle sv ctx a (arrive t w) = (r, w1)"
        by (cases "cycle sv ctx a (arrive t w)")
      have k1: "kept w1 = kept w" using keepsD[OF keeps_cycle c] kept_arrive by simp
      show "kept (snd (async_for sv ctx (it # items) w)) = kept w"
      proof (cases r)
        case (Inl e)
        then show ?thesis using Chunk c k1 by simp
      next
        case (Inr u)
        have "kept (snd (async_for sv ctx items w1)) = kept w1"
          using Cons by (simp add: keeps_def)
        then show ?thesis using Inr Chunk c k1 by simp
      qed
    qed
  qed
qed

lemma keeps_try_body: "keeps (try_body ctx)"
proof (cases "create_services ctx")
  case (Inl e)
  then show ?thesis by (simp add: keeps_def try_body_def)
next
  case (Inr sv)
  have "try_body ctx = async_for sv ctx (audio_stream ctx)"
    using Inr by (auto simp: try_body_def)
  then show ?thesis by (simp add: keeps_async_for)
qed

lemma started_keeps:
  "interruptions_count (metrics (metrics_tracker (started w)))
     = interruptions_count (metrics (metrics_tracker w))"
  "stt_delays (metrics (metrics_tracker (started w))) = stt_delays (metrics (metrics_tracker w))"
  "errors (metrics (metrics_tracker (started w))) = errors (metrics (metrics_tracker w))"
  "disk (started w) = disk w"
  by (simp_all add: started_def invoke_simps start_session_def)

lemma record_error_keeps:
  "interruptions_count (metrics (metrics_tracker (snd (invoke RecordError v))))
     = interruptions_count (metrics (metrics_tracker v))"
  "stt_delays (metrics (metrics_tracker (snd (invoke RecordError v))))
     = stt_delays (metrics (metrics_tracker v))"
  "disk (snd (invoke RecordError v)) = disk v"
  by (simp_all add: invoke_simps record_error_def)

subsection \<open>One STT sample per segment at most\<close>




lemma entrypoint_final:
  "\<exists>v. snd (entrypoint ctx w) = snd (teardown v)
      \<and> interruptions_count (metrics (metrics_tracker v))
          = interruptions_count (metrics (metrics_tracker (snd (try_body ctx (started w)))))
      \<and> stt_delays (metrics (metrics_tracker v))
          = stt_delays (metrics (metrics_tracker (snd (try_body ctx (started w)))))
      \<and> disk v = disk (snd (try_body ctx (started w)))"
proof -
  obtain r w1 where tb: "try_body ctx (started w) = (r, w1)"
    by (cases "try_body ctx (started w)")
  have "snd (entrypoint ctx w) = snd (teardown w1)
      \<or> snd (entrypoint ctx w) = snd (teardown (snd (invoke RecordError w1)))"
    using tb by (auto simp: entrypoint_exec split: sum.splits py_exc.splits)
  then show ?thesis using tb record_error_keeps[of w1] by auto
qed

lemma entrypoint_disk:
  "\<exists>tr. disk (snd (entrypoint ctx w)) = snd (save_to_excel default_filename tr (disk w))"
proof -
  obtain v where v: "snd (entrypoint ctx w) = snd (teardown v)"
    and dv: "disk v = disk (snd (try_body ctx (started w)))"
    using entrypoint_final by blast
  obtain r1 w1 where tb: "try_body ctx (started w) = (r1, w1)"
    by (cases "try_body ctx (started w)")
  have "kept w1 = kept (started w)" using keepsD[OF keeps_try_body tb] .
  then have "disk w1 = disk w" using started_keeps(4)[of w] by (simp add: kept_def)
  then have "disk v = disk w" using dv tb by simp
  then have "disk (snd (entrypoint ctx w))
      = snd (save_to_excel default_filename (end_session (now v) (metrics_tracker v)) (disk w))"
    using v by (simp add: teardown_exec)
  then show ?thesis by blast
qed

subsection \<open>The configuration check\<close>

lemma check_three:
  "foldl check_service st [(''stt'', a), (''llm'', b), (''tts'', c)] =
     st\<lparr>available_services :=
           AList.update ''tts'' c
             (AList.update ''llm'' b (AList.update ''stt'' a (available_services st))),
         status_errors :=
           status_errors st @ stage_errors (''stt'', a) @ stage_errors (''llm'', b)
             @ stage_errors (''tts'', c),
         valid := valid st \<and> a \<noteq> [] \<and> b \<noteq> [] \<and> c \<noteq> []\<rparr>"
  by (simp add: check_service_def stage_errors_def Let_def)

lemma upper_stages:
  "no_service_configured ''stt'' = ''No STT service configured''"
  "no_service_configured ''llm'' = ''No LLM service configured''"
  "no_service_configured ''tts'' = ''No TTS service configured''"
  by code_simp+

lemma priority_eq:
  "get_service_priority cls =
     [(''stt'', stt_providers cls), (''llm'', llm_providers cls), (''tts'', tts_providers cls)]"
  by (simp add: get_service_priority_def stt_providers_def llm_providers_def tts_providers_def)

lemma validate_config_fields:
  "valid (validate_config cls) =
     (truthy (LIVEKIT_API_KEY cls) \<and> truthy (LIVEKIT_API_SECRET cls)
      \<and> stt_providers cls \<noteq> [] \<and> llm_providers cls \<noteq> [] \<and> tts_providers cls \<noteq> [])"
  "status_errors (validate_config cls) =
     (if truthy (LIVEKIT_API_KEY cls) \<and> truthy (LIVEKIT_API_SECRET cls) then []
      else [''LiveKit API key and secret are required''])
     @ stage_errors (''stt'', stt_providers cls) @ stage_errors (''llm'', llm_providers cls)
     @ stage_errors (''tts'', tts_providers cls)"
  "available_services (validate_config cls) = get_service_priority cls"
  by (auto simp add: validate_config_def priority_eq check_three Let_def
      simp del: foldl_Cons foldl_Nil)

lemma providers_empty:
  "(stt_providers cls = [])
     = (\<not> truthy (DEEPGRAM_API_KEY cls) \<and> \<not> truthy (OPENAI_API_KEY cls))"
  "(llm_providers cls = [])
     = (\<not> truthy (GROQ_API_KEY cls) \<and> \<not> truthy (OPENAI_API_KEY cls))"
  "(tts_providers cls = [])
     = (\<not> truthy (ELEVENLABS_API_KEY cls) \<and> \<not> truthy (CARTESIA_API_KEY cls)
        \<and> \<not> truthy (OPENAI_API_KEY cls))"
  by (simp_all add: stt_providers_def llm_providers_def tts_providers_def)

section \<open>The claims\<close>

subsection \<open>C1: the teardown runs once, after the loop\<close>

text \<open>
  C1. For every run of \<open>entrypoint\<close>, whatever ends the loop (the stream ends, the
  construction of a client or a provider call or the transport raises, with an
  \<open>Exception\<close> or not), the tracker calls of the run are: the calls made before, then
  calls none of which is \<open>end_session\<close> or \<open>save_to_excel\<close>, then \<open>end_session\<close> once and
  \<open>save_to_excel\<close> once, in that order, as the last two calls.
\<close>

theorem entrypoint_teardown_once:
  "\<exists>cs. calls (snd (entrypoint ctx w))
          = calls w @ cs @ [EndSession, SaveToExcel default_filename]
        \<and> filter is_teardown cs = []"
proof -
  let ?sid = "session_name (now w)"
  let ?body = "try_except_Exception (try_body ctx) (invoke RecordError)"
  have c1: "calls (started w) = calls w @ [StartSession ?sid]"
    by (simp add: started_def invoke_calls)
  have "quiet ?body"
    by (intro quiet_try_except quiet_try_body quiet_invoke) simp
  then obtain cs where
    cs: "calls (snd (?body (started w))) = calls (started w) @ cs" "filter is_teardown cs = []"
    unfolding quiet_def by blast
  have "calls (snd (entrypoint ctx w))
          = calls w @ (StartSession ?sid # cs) @ [EndSession, SaveToExcel default_filename]"
    using c1 cs by (simp add: entrypoint_unfold try_finally_calls teardown_calls)
  moreover have "filter is_teardown (StartSession ?sid # cs) = []" using cs by simp
  ultimately show ?thesis by blast
qed

text \<open>
  The theorem at a session that is cancelled while it waits for its first segment: the
  exception is not an \<open>Exception\<close>, no error is recorded, the exception leaves
  \<open>entrypoint\<close>, and the teardown has run once.
\<close>

theorem entrypoint_teardown_once_witness:
  "fst (entrypoint cancelled_session (VoiceAgent_init 1000 empty_disk))
     = Inl (BaseExc ''CancelledError'')
   \<and> calls (snd (entrypoint cancelled_session (VoiceAgent_init 1000 empty_disk)))
     = [StartSession (session_name 1000), EndSession, SaveToExcel default_filename]
   \<and> errors (world_metrics (snd (entrypoint cancelled_session (VoiceAgent_init 1000 empty_disk))))
     = 0
   \<and> (\<exists>cs. calls (snd (entrypoint cancelled_session (VoiceAgent_init 1000 empty_disk)))
          = calls (VoiceAgent_init 1000 empty_disk) @ cs
              @ [EndSession, SaveToExcel default_filename]
        \<and> filter is_teardown cs = [])"
proof -
  let ?w = "VoiceAgent_init 1000 empty_disk"
  have a: "fst (entrypoint cancelled_session ?w) = Inl (BaseExc ''CancelledError'')"
    by (simp add: run_simps cancelled_session_def)
  have b: "calls (snd (entrypoint cancelled_session ?w))
     = [StartSession (session_name 1000), EndSession, SaveToExcel default_filename]"
    by (simp add: run_simps cancelled_session_def session_name_def)
  have c: "errors (world_metrics (snd (entrypoint cancelled_session ?w))) = 0"
    by (simp add: run_simps cancelled_session_def)
  show ?thesis
    by (intro conjI a b c entrypoint_teardown_once[of cancelled_session ?w])
qed

subsection \<open>C2: the record methods do not look at the session's state\<close>

text \<open>
  C2, as the code has it. Every \<open>record_*\<close> method returns normally in every state of the
  tracker (before \<open>start_session\<close>, during the session, after \<open>end_session\<close>) and appends
  its sample or adds one to its counter; the tracker has no state check and raises no
  \<open>InvalidStateError\<close>.
\<close>

theorem record_methods_ignore_state:
  "fst (invoke (RecordSttDelay x) w) = Inr ()
   \<and> stt_delays (after (RecordSttDelay x) w) = stt_delays (world_metrics w) @ [x]
   \<and> fst (invoke (RecordTtft x) w) = Inr ()
   \<and> ttft_delays (after (RecordTtft x) w) = ttft_delays (world_metrics w) @ [x]
   \<and> fst (invoke (RecordTtfd x) w) = Inr ()
   \<and> ttfd_delays (after (RecordTtfd x) w) = ttfd_delays (world_metrics w) @ [x]
   \<and> fst (invoke (RecordTotalLatency x) w) = Inr ()
   \<and> total_latencies (after (RecordTotalLatency x) w) = total_latencies (world_metrics w) @ [x]
   \<and> fst (invoke RecordUserMessage w) = Inr ()
   \<and> user_messages (after RecordUserMessage w) = user_messages (world_metrics w) + 1
   \<and> fst (invoke RecordAgentResponse w) = Inr ()
   \<and> agent_responses (after RecordAgentResponse w) = agent_responses (world_metrics w) + 1
   \<and> fst (invoke RecordInterruption w) = Inr ()
   \<and> interruptions_count (after RecordInterruption w)
       = interruptions_count (world_metrics w) + 1
   \<and> fst (invoke RecordError w) = Inr ()
   \<and> errors (after RecordError w) = errors (world_metrics w) + 1"
  by (simp add: invoke_simps after_def world_metrics_def record_stt_delay_def record_ttft_def
      record_ttfd_def record_total_latency_def record_user_message_def
      record_agent_response_def record_interruption_def record_error_def)

text \<open>
  C2 as the specification states it fails: on a new tracker, whose session has not
  started, \<open>record_error\<close> returns and counts the error; after \<open>start_session\<close> and
  \<open>end_session\<close>, \<open>record_user_message\<close> returns and counts the message.
\<close>

theorem record_outside_session_counterexample:
  "session_start (metrics_tracker (VoiceAgent_init 1000 empty_disk)) = None
   \<and> fst (invoke RecordError (VoiceAgent_init 1000 empty_disk)) = Inr ()
   \<and> fst (invoke RecordError (VoiceAgent_init 1000 empty_disk)) \<noteq> Inl (Exc ''InvalidStateError'')
   \<and> errors (after RecordError (VoiceAgent_init 1000 empty_disk)) = 1
   \<and> end_time (world_metrics
        (snd (invoke EndSession
          (snd (invoke (StartSession ''s'') (VoiceAgent_init 1000 empty_disk))))))
       = Some 1000
   \<and> fst (invoke RecordUserMessage
        (snd (invoke EndSession
          (snd (invoke (StartSession ''s'') (VoiceAgent_init 1000 empty_disk))))))
       = Inr ()
   \<and> user_messages (after RecordUserMessage
        (snd (invoke EndSession
          (snd (invoke (StartSession ''s'') (VoiceAgent_init 1000 empty_disk))))))
       = 1"
  by (simp add: VoiceAgent_init_def MetricsTracker_init_def invoke_simps after_def
      world_metrics_def record_error_def record_user_message_def end_session_def
      start_session_def)

subsection \<open>C3: a provider failure ends the session\<close>

text \<open>
  C3, as the code has it. When the segments before \<open>a\<close> are processed without an
  exception and a provider call (STT, LLM or TTS) of the cycle of \<open>a\<close> raises an
  \<open>Exception\<close>, the run returns normally, records exactly one error, sends no audio for
  \<open>a\<close> nor for any later segment, and is the run of the stream cut after \<open>a\<close>: the
  segments after \<open>a\<close> are not processed, the session ends.
\<close>

theorem provider_failure_ends_session:
  assumes sv: "create_services ctx = Inr sv"
    and stream: "audio_stream ctx = pre @ Chunk t a # rest"
    and pre: "async_for sv ctx pre (started w) = (Inr (), w2)"
    and fails: "provider_failure sv a = Some m"
  shows "fst (entrypoint ctx w) = Inr ()
       \<and> errors (world_metrics (snd (entrypoint ctx w))) = errors (world_metrics w) + 1
       \<and> sent (snd (entrypoint ctx w)) = sent w2
       \<and> entrypoint ctx w = entrypoint (ctx\<lparr>audio_stream := pre @ [Chunk t a]\<rparr>) w"
proof -
  obtain w3 where c: "cycle sv ctx a (arrive t w2) = (Inl (Exc m), w3)"
    and s3: "sent w3 = sent (arrive t w2)"
    using cycle_provider_failure[OF fails] by blast
  have run: "async_for sv ctx (pre @ Chunk t a # more) (started w) = (Inl (Exc m), w3)"
    for more
    using pre c by (simp add: async_for_append)
  have tb: "try_body ctx (started w) = (Inl (Exc m), w3)"
    using sv stream run[of rest] by (simp add: try_body_def)
  have tb': "try_body (ctx\<lparr>audio_stream := pre @ [Chunk t a]\<rparr>) (started w)
               = (Inl (Exc m), w3)"
    using sv run[of "[]"] by (simp add: try_body_def async_for_ctx_stream)
  have e: "entrypoint ctx w = (Inr (), snd (teardown (snd (invoke RecordError w3))))"
    using tb by (simp add: entrypoint_exec)
  have e': "entrypoint (ctx\<lparr>audio_stream := pre @ [Chunk t a]\<rparr>) w
              = (Inr (), snd (teardown (snd (invoke RecordError w3))))"
    using tb' by (simp add: entrypoint_exec)
  have "kept w3 = kept (started w)" using keepsD[OF keeps_try_body tb] .
  then have "errors (metrics (metrics_tracker w3)) = errors (metrics (metrics_tracker w))"
    using started_keeps(3)[of w] by (simp add: kept_def)
  then have errs:
    "errors (world_metrics (snd (entrypoint ctx w))) = errors (world_metrics w) + 1"
    using e by (simp add: world_metrics_def teardown_keeps invoke_simps record_error_def)
  have snt: "sent (snd (entrypoint ctx w)) = sent w2"
    using e s3 by (simp add: teardown_keeps invoke_simps arrive_def)
  show ?thesis using e e' errs snt by simp
qed

text \<open>
  The theorem at a session of three segments in which STT raises on the second.
\<close>

theorem provider_failure_ends_session_witness:
  "create_services three_segments = Inr scripted_services
   \<and> audio_stream three_segments
       = [Chunk 1010 ''segment 1''] @ Chunk 1020 ''segment 2'' # [Chunk 1030 ''segment 3'']
   \<and> fst (async_for scripted_services three_segments [Chunk 1010 ''segment 1'']
            (started (VoiceAgent_init 1000 empty_disk))) = Inr ()
   \<and> provider_failure scripted_services ''segment 2'' = Some ''ProviderError''
   \<and> fst (entrypoint three_segments (VoiceAgent_init 1000 empty_disk)) = Inr ()
   \<and> errors (world_metrics (snd (entrypoint three_segments (VoiceAgent_init 1000 empty_disk))))
       = 1
   \<and> entrypoint three_segments (VoiceAgent_init 1000 empty_disk)
       = entrypoint
           (three_segments\<lparr>audio_stream :=
              [Chunk 1010 ''segment 1''] @ [Chunk 1020 ''segment 2'']\<rparr>)
           (VoiceAgent_init 1000 empty_disk)"
proof -
  let ?w = "VoiceAgent_init 1000 empty_disk"
  let ?pre = "[Chunk 1010 ''segment 1'']"
  have h1: "create_services three_segments = Inr scripted_services"
    by (simp add: three_segments_def)
  have h2: "audio_stream three_segments
              = ?pre @ Chunk 1020 ''segment 2'' # [Chunk 1030 ''segment 3'']"
    by (simp add: three_segments_def)
  have h3: "fst (async_for scripted_services three_segments ?pre (started ?w)) = Inr ()"
    by (simp add: cycle_def bind_stmt_def time_time_def await_def invoke_simps send_audio_exec
        three_segments_def scripted_services_def)
  then have h3': "async_for scripted_services three_segments ?pre (started ?w)
      = (Inr (), snd (async_for scripted_services three_segments ?pre (started ?w)))"
    by (metis prod.collapse)
  have h4: "provider_failure scripted_services ''segment 2'' = Some ''ProviderError''"
    by (simp add: provider_failure_def scripted_services_def)
  have e0: "errors (world_metrics ?w) = 0"
    by (simp add: world_metrics_def VoiceAgent_init_def MetricsTracker_init_def)
  note th = provider_failure_ends_session[OF h1 h2 h3' h4]
  from th have a: "fst (entrypoint three_segments ?w) = Inr ()"
    by (rule conjunct1)
  from th have "errors (world_metrics (snd (entrypoint three_segments ?w)))
                  = errors (world_metrics ?w) + 1"
    by (elim conjE)
  then have b: "errors (world_metrics (snd (entrypoint three_segments ?w))) = 1"
    using e0 by simp
  from th have d: "entrypoint three_segments ?w
       = entrypoint (three_segments\<lparr>audio_stream := ?pre @ [Chunk 1020 ''segment 2'']\<rparr>) ?w"
    by (elim conjE)
  show ?thesis
    by (intro conjI h1 h2 h3 h4 a b d)
qed

text \<open>
  C3 as the specification states it fails. Of three segments, STT raises on the second
  and would succeed on the third: the run records one user message and sends one audio
  (those of the first segment), one error, and ends the session at 1021, when STT
  raised; the third segment is never transcribed.
\<close>

theorem provider_failure_counterexample:
  "user_messages (world_metrics (snd (entrypoint three_segments (VoiceAgent_init 1000 empty_disk))))
     = 1
   \<and> errors (world_metrics (snd (entrypoint three_segments (VoiceAgent_init 1000 empty_disk))))
     = 1
   \<and> sent (snd (entrypoint three_segments (VoiceAgent_init 1000 empty_disk))) = [''bytes'']
   \<and> stt_delays (world_metrics (snd (entrypoint three_segments (VoiceAgent_init 1000 empty_disk))))
     = [1]
   \<and> end_time (world_metrics (snd (entrypoint three_segments (VoiceAgent_init 1000 empty_disk))))
     = Some 1021
   \<and> fst (stt scripted_services ''segment 3'') = 1
   \<and> snd (stt scripted_services ''segment 3'') = Inr ''hello''"
  by (simp add: run_simps three_segments_def scripted_services_def)

subsection \<open>C4: averages of every quantity, extremes of the total latency\<close>

text \<open>
  C4, as the code has it. The summary never raises (no division by zero, no maximum of
  an empty list), whatever the float operations do. For each of the four measured
  quantities (STT delay, TTFT, TTFD, total latency) with N samples, its average column
  is 0 when N is 0, and otherwise the float quotient \<open>sum(samples) / N\<close>: the float
  that \<open>sum\<close> gives for the list of the samples, divided by N in one float division;
  it is the exact mean up to the rounding of these two operations. The maximum and
  minimum columns are those of the total latencies, and 0 when there is none; the
  summary has no maximum or minimum of the other three quantities.
\<close>

theorem snapshot_averages_and_latency_extremes:
  "\<exists>r. summary_data fa m = Inr r
     \<and> col_avg_stt_delay r =
         (if stt_delays m = [] then Finite 0
          else f_truediv fa (py_sum fa (stt_delays m)) (Finite (real (length (stt_delays m)))))
     \<and> col_avg_ttft r =
         (if ttft_delays m = [] then Finite 0
          else f_truediv fa (py_sum fa (ttft_delays m)) (Finite (real (length (ttft_delays m)))))
     \<and> col_avg_ttfd r =
         (if ttfd_delays m = [] then Finite 0
          else f_truediv fa (py_sum fa (ttfd_delays m)) (Finite (real (length (ttfd_delays m)))))
     \<and> col_avg_total_latency r =
         (if total_latencies m = [] then Finite 0
          else f_truediv fa (py_sum fa (total_latencies m))
                 (Finite (real (length (total_latencies m)))))
     \<and> col_max_latency r = (if total_latencies m = [] then 0 else Max (set (total_latencies m)))
     \<and> col_min_latency r = (if total_latencies m = [] then 0 else Min (set (total_latencies m)))"
  by (simp add: summary_data_eq summary_row_def float_mean_def)

text \<open>
  C4 as the specification states it fails for the STT delay (and likewise for TTFT and
  TTFD). With the STT samples 1 and 3, whose sum and mean the floats give exactly, the
  average column is 2, and the only maximum and minimum columns of the summary are 0,
  not 3 and 1; the samples 2 and 2 give the same summary, so that no column of it is
  the minimum of the STT samples.
\<close>

theorem snapshot_min_max_counterexample:
  "summary_data exact_arith (stt_only [1, 3]) =
     Inr \<lparr>col_session_id = None, col_start_time = None, col_end_time = None,
          col_total_duration = 0, col_user_messages = 0, col_agent_responses = 0,
          col_interruptions = 0, col_avg_stt_delay = Finite 2, col_avg_ttft = Finite 0,
          col_avg_ttfd = Finite 0, col_avg_total_latency = Finite 0, col_max_latency = 0,
          col_min_latency = 0, col_errors = 0, col_latency_target_met = True\<rparr>
   \<and> summary_data exact_arith (stt_only [2, 2]) = summary_data exact_arith (stt_only [1, 3])
   \<and> Min (set (stt_delays (stt_only [1, 3]))) = 1
   \<and> Max (set (stt_delays (stt_only [1, 3]))) = 3
   \<and> Min (set (stt_delays (stt_only [2, 2]))) = 2"
  by (simp add: summary_data_eq summary_row_def float_mean_exact stt_only_def
      MetricsTracker_init_def)

subsection \<open>C5: an export that does not fail appends one row\<close>

text \<open>
  C5, as the code has it. When no call of the export into pandas raises:
  \<open>end_session\<close> followed by \<open>save_to_excel\<close> stores, under the file name, the rows
  stored before, as \<open>read_excel\<close> reads them back (one row for each, in their order,
  the cells parsed again), followed by one new row, the summary; and every run of
  \<open>entrypoint\<close>, whatever its stream and however many cycles it ran, leaves in the
  metrics file that many rows and one more, the last one new, and leaves every other
  file as it was.
\<close>

theorem export_appends_one_record:
  assumes "no_faults (disk w)"
  shows "(\<exists>r. summary_data (arith (disk w)) (metrics (end_session t tr)) = Inr r
            \<and> save_to_excel filename (end_session t tr) (disk w) =
                (None, (disk w)\<lparr>files := (files (disk w))
                   (filename \<mapsto>
                      map (reparse (disk w) (stored (disk w) filename)) (stored (disk w) filename)
                        @ [r])\<rparr>))
       \<and> (\<exists>r. files (disk (snd (entrypoint ctx w))) =
                (files (disk w))
                  (default_filename \<mapsto>
                     map (reparse (disk w) (stored (disk w) default_filename))
                       (stored (disk w) default_filename) @ [r]))
       \<and> length (stored (disk (snd (entrypoint ctx w))) default_filename) =
           length (stored (disk w) default_filename) + 1
       \<and> take (length (stored (disk w) default_filename))
            (stored (disk (snd (entrypoint ctx w))) default_filename) =
           map (reparse (disk w) (stored (disk w) default_filename))
             (stored (disk w) default_filename)"
proof -
  let ?old = "stored (disk w) default_filename"
  have first: "\<exists>r. summary_data (arith (disk w)) (metrics (end_session t tr)) = Inr r
            \<and> save_to_excel filename (end_session t tr) (disk w) =
                (None, (disk w)\<lparr>files := (files (disk w))
                   (filename \<mapsto>
                      map (reparse (disk w) (stored (disk w) filename)) (stored (disk w) filename)
                        @ [r])\<rparr>)"
    using save_to_excel_appends[OF assms] summary_data_eq by blast
  obtain tr' where
    d: "disk (snd (entrypoint ctx w)) = snd (save_to_excel default_filename tr' (disk w))"
    using entrypoint_disk by blast
  have second: "files (disk (snd (entrypoint ctx w))) =
                (files (disk w))
                  (default_filename \<mapsto>
                     map (reparse (disk w) ?old) ?old @ [summary_row (arith (disk w)) (metrics tr')])"
    using d by (simp add: save_to_excel_appends[OF assms])
  then have st: "stored (disk (snd (entrypoint ctx w))) default_filename =
      map (reparse (disk w) ?old) ?old @ [summary_row (arith (disk w)) (metrics tr')]"
    by (simp add: stored_def)
  show ?thesis using first second st by auto
qed

text \<open>
  The theorem at the session of three segments, on a metrics file that holds one row
  and is read back as it was written.
\<close>

theorem export_appends_one_record_witness:
  "no_faults (disk (VoiceAgent_init 1000 used_disk))
   \<and> stored (disk (VoiceAgent_init 1000 used_disk)) default_filename = [old_row]
   \<and> length (stored (disk (snd (entrypoint three_segments (VoiceAgent_init 1000 used_disk))))
        default_filename) = 2
   \<and> take 1 (stored (disk (snd (entrypoint three_segments (VoiceAgent_init 1000 used_disk))))
        default_filename) = [old_row]"
proof -
  let ?w = "VoiceAgent_init 1000 used_disk"
  have h: "no_faults (disk ?w)"
    by (simp add: no_faults_def VoiceAgent_init_def used_disk_def empty_disk_def)
  have s: "stored (disk ?w) default_filename = [old_row]"
    by (simp add: stored_def VoiceAgent_init_def used_disk_def empty_disk_def)
  have rp: "reparse (disk ?w) = (\<lambda>rows r. r)"
    by (simp add: VoiceAgent_init_def used_disk_def empty_disk_def)
  note th = export_appends_one_record[OF h, of 0 MetricsTracker_init default_filename
      three_segments]
  from th have
    "length (stored (disk (snd (entrypoint three_segments ?w))) default_filename)
       = length (stored (disk ?w) default_filename) + 1"
    by (elim conjE)
  then have a: "length (stored (disk (snd (entrypoint three_segments ?w))) default_filename) = 2"
    by (simp only: s) simp
  from th have
    "take (length (stored (disk ?w) default_filename))
       (stored (disk (snd (entrypoint three_segments ?w))) default_filename)
     = map (reparse (disk ?w) (stored (disk ?w) default_filename))
         (stored (disk ?w) default_filename)"
    by (elim conjE)
  then have b: "take 1 (stored (disk (snd (entrypoint three_segments ?w))) default_filename)
      = [old_row]"
    by (simp only: s rp) simp
  show ?thesis by (intro conjI h s a b)
qed

text \<open>
  C5 as the specification states it fails, in two ways. When the metrics file cannot be
  written, the export raises inside \<open>save_to_excel\<close>, which catches it: the session of
  three segments ends normally and the file holds the one row it held, none is
  appended. And when nothing raises, a row of the file need not be preserved: the row
  whose session id is the string \<open>NA\<close> is read back with no session id, and is written
  so.
\<close>

theorem export_counterexample:
  "fst (entrypoint three_segments (VoiceAgent_init 1000 locked_disk)) = Inr ()
   \<and> stored (disk (VoiceAgent_init 1000 locked_disk)) default_filename = [old_row]
   \<and> stored (disk (snd (entrypoint three_segments (VoiceAgent_init 1000 locked_disk))))
        default_filename = [old_row]
   \<and> no_faults (disk (VoiceAgent_init 1000 na_disk))
   \<and> stored (disk (VoiceAgent_init 1000 na_disk)) default_filename = [na_row]
   \<and> col_session_id na_row = Some ''NA''
   \<and> map col_session_id
        (take 1 (stored (disk (snd (entrypoint three_segments (VoiceAgent_init 1000 na_disk))))
           default_filename)) = [None]
   \<and> length (stored (disk (snd (entrypoint three_segments (VoiceAgent_init 1000 na_disk))))
        default_filename) = 2"
proof -
  let ?l = "VoiceAgent_init 1000 locked_disk"
  let ?n = "VoiceAgent_init 1000 na_disk"
  have a: "fst (entrypoint three_segments ?l) = Inr ()"
    by (simp add: run_simps three_segments_def scripted_services_def)
  have b: "stored (disk ?l) default_filename = [old_row]"
    by (simp add: stored_def VoiceAgent_init_def locked_disk_def used_disk_def empty_disk_def)
  obtain tr where
    "disk (snd (entrypoint three_segments ?l)) = snd (save_to_excel default_filename tr (disk ?l))"
    using entrypoint_disk by blast
  moreover have "save_to_excel default_filename tr (disk ?l) = (None, disk ?l)"
    by (rule save_to_excel_refused[where m = "''PermissionError''"])
      (simp_all add: VoiceAgent_init_def locked_disk_def used_disk_def empty_disk_def)
  ultimately have c: "stored (disk (snd (entrypoint three_segments ?l))) default_filename
      = [old_row]"
    using b by simp
  have d: "no_faults (disk ?n)"
    by (simp add: no_faults_def VoiceAgent_init_def na_disk_def empty_disk_def)
  have e: "stored (disk ?n) default_filename = [na_row]"
    by (simp add: stored_def VoiceAgent_init_def na_disk_def empty_disk_def)
  have f: "col_session_id na_row = Some ''NA''"
    by (simp add: na_row_def)
  obtain tr' where
    "disk (snd (entrypoint three_segments ?n)) = snd (save_to_excel default_filename tr' (disk ?n))"
    using entrypoint_disk by blast
  then have "stored (disk (snd (entrypoint three_segments ?n))) default_filename
      = map (reparse (disk ?n) (stored (disk ?n) default_filename))
          (stored (disk ?n) default_filename)
        @ [summary_row (arith (disk ?n)) (metrics tr')]"
    by (simp add: save_to_excel_appends[OF d] stored_def)
  then have g: "stored (disk (snd (entrypoint three_segments ?n))) default_filename
      = [na_reparse [na_row] na_row, summary_row (arith (disk ?n)) (metrics tr')]"
    by (simp add: e) (simp add: VoiceAgent_init_def na_disk_def empty_disk_def)
  have h: "map col_session_id
        (take 1 (stored (disk (snd (entrypoint three_segments ?n))) default_filename)) = [None]"
    by (simp add: g na_reparse_def na_row_def)
  have i: "length (stored (disk (snd (entrypoint three_segments ?n))) default_filename) = 2"
    by (simp add: g)
  show ?thesis by (intro conjI a b c d e f h i)
qed

subsection \<open>C6: segments are processed in turn\<close>




subsection \<open>C7: the configuration check\<close>

text \<open>
  C7. For every configuration: when a stage (\<open>stt\<close>, \<open>llm\<close> or \<open>tts\<close>) has no provider with
  a key, that is, when its list of \<open>get_service_priority\<close> is empty, \<open>validate_config\<close>
  is not valid, its errors hold the message that names the stage in upper case, and the
  available services of the stage are the empty list; when the LiveKit key and secret
  are set and every stage has a provider with a key, it is valid (and has no error). A
  stage's list is empty exactly when none of its providers' keys is set.
\<close>

theorem validate_config_stages:
  "(map_of (get_service_priority cls) stage = Some []
      \<longrightarrow> \<not> valid (validate_config cls)
        \<and> no_service_configured stage \<in> set (status_errors (validate_config cls))
        \<and> map_of (available_services (validate_config cls)) stage = Some [])
   \<and> (truthy (LIVEKIT_API_KEY cls) \<and> truthy (LIVEKIT_API_SECRET cls)
      \<and> (truthy (DEEPGRAM_API_KEY cls) \<or> truthy (OPENAI_API_KEY cls))
      \<and> (truthy (GROQ_API_KEY cls) \<or> truthy (OPENAI_API_KEY cls))
      \<and> (truthy (ELEVENLABS_API_KEY cls) \<or> truthy (CARTESIA_API_KEY cls)
           \<or> truthy (OPENAI_API_KEY cls))
      \<longrightarrow> valid (validate_config cls) \<and> status_errors (validate_config cls) = [])
   \<and> (map_of (get_service_priority cls) ''stt'' = Some [])
       = (\<not> truthy (DEEPGRAM_API_KEY cls) \<and> \<not> truthy (OPENAI_API_KEY cls))
   \<and> (map_of (get_service_priority cls) ''llm'' = Some [])
       = (\<not> truthy (GROQ_API_KEY cls) \<and> \<not> truthy (OPENAI_API_KEY cls))
   \<and> (map_of (get_service_priority cls) ''tts'' = Some [])
       = (\<not> truthy (ELEVENLABS_API_KEY cls) \<and> \<not> truthy (CARTESIA_API_KEY cls)
          \<and> \<not> truthy (OPENAI_API_KEY cls))
   \<and> no_service_configured ''stt'' = ''No STT service configured''
   \<and> no_service_configured ''llm'' = ''No LLM service configured''
   \<and> no_service_configured ''tts'' = ''No TTS service configured''"
proof -
  have a: "\<not> valid (validate_config cls)
        \<and> no_service_configured stage \<in> set (status_errors (validate_config cls))
        \<and> map_of (available_services (validate_config cls)) stage = Some []"
    if h: "map_of (get_service_priority cls) stage = Some []"
  proof -
    have "(stage = ''stt'' \<and> stt_providers cls = []) \<or> (stage = ''llm'' \<and> llm_providers cls = [])
        \<or> (stage = ''tts'' \<and> tts_providers cls = [])"
      using h by (auto simp: priority_eq split: if_splits)
    then show ?thesis using h
      by (auto simp: validate_config_fields stage_errors_def)
  qed
  have b: "valid (validate_config cls) \<and> status_errors (validate_config cls) = []"
    if "truthy (LIVEKIT_API_KEY cls) \<and> truthy (LIVEKIT_API_SECRET cls)
      \<and> (truthy (DEEPGRAM_API_KEY cls) \<or> truthy (OPENAI_API_KEY cls))
      \<and> (truthy (GROQ_API_KEY cls) \<or> truthy (OPENAI_API_KEY cls))
      \<and> (truthy (ELEVENLABS_API_KEY cls) \<or> truthy (CARTESIA_API_KEY cls)
           \<or> truthy (OPENAI_API_KEY cls))"
    using that by (auto simp: validate_config_fields stage_errors_def providers_empty)
  have c: "(map_of (get_service_priority cls) ''stt'' = Some [])
       = (\<not> truthy (DEEPGRAM_API_KEY cls) \<and> \<not> truthy (OPENAI_API_KEY cls))"
    "(map_of (get_service_priority cls) ''llm'' = Some [])
       = (\<not> truthy (GROQ_API_KEY cls) \<and> \<not> truthy (OPENAI_API_KEY cls))"
    "(map_of (get_service_priority cls) ''tts'' = Some [])
       = (\<not> truthy (ELEVENLABS_API_KEY cls) \<and> \<not> truthy (CARTESIA_API_KEY cls)
          \<and> \<not> truthy (OPENAI_API_KEY cls))"
    by (simp_all add: priority_eq providers_empty)
  show ?thesis using a b c upper_stages by blast
qed

text \<open>
  The theorem at a configuration with no STT key (the Deepgram key is not set, the
  OpenAI key is the empty string), and at the same configuration with a Deepgram key.
\<close>

theorem validate_config_stages_witness:
  "map_of (get_service_priority missing_keys) ''stt'' = Some []
   \<and> \<not> valid (validate_config missing_keys)
   \<and> ''No STT service configured'' \<in> set (status_errors (validate_config missing_keys))
   \<and> map_of (available_services (validate_config missing_keys)) ''stt'' = Some []
   \<and> truthy (LIVEKIT_API_KEY all_keys) \<and> truthy (LIVEKIT_API_SECRET all_keys)
   \<and> truthy (DEEPGRAM_API_KEY all_keys) \<and> truthy (GROQ_API_KEY all_keys)
   \<and> truthy (CARTESIA_API_KEY all_keys)
   \<and> valid (validate_config all_keys) \<and> status_errors (validate_config all_keys) = []"
proof -
  have h1: "map_of (get_service_priority missing_keys) ''stt'' = Some []"
    by (simp add: get_service_priority_def missing_keys_def truthy_def)
  have h2: "truthy (LIVEKIT_API_KEY all_keys) \<and> truthy (LIVEKIT_API_SECRET all_keys)
   \<and> truthy (DEEPGRAM_API_KEY all_keys) \<and> truthy (GROQ_API_KEY all_keys)
   \<and> truthy (CARTESIA_API_KEY all_keys)"
    by (simp add: all_keys_def missing_keys_def truthy_def)
  show ?thesis
    using h1 h2 validate_config_stages[of missing_keys "''stt''"]
      validate_config_stages[of all_keys "''stt''"]
    by simp
qed

subsection \<open>C8: the latency target of the summary is 2\<close>

text \<open>
  C8, as the code has it. The column \<open>Latency Target Met (<2s)\<close> of the summary is true
  exactly when the average total latency, the float in the average column, is below 2;
  the summary is computed from the metrics alone and reads no configuration, so that
  \<open>TARGET_LATENCY\<close> has no part in it.
\<close>

theorem latency_target_hardcoded:
  "\<exists>r. summary_data fa m = Inr r
     \<and> col_latency_target_met r = pf_less (col_avg_total_latency r) (Finite 2)"
  by (simp add: summary_data_eq summary_row_def)

text \<open>
  C8 as the specification states it fails. With a configured target of 1 and one total
  latency of 3/2, the average is 3/2 (the floats give \<open>0 + 1.5\<close> and \<open>1.5 / 1\<close>
  exactly), which is not below the configured target, and the column is true.
\<close>

theorem latency_target_counterexample:
  "TARGET_LATENCY strict_target = 1
   \<and> summary_data exact_arith (latencies_only [3 / 2]) =
       Inr \<lparr>col_session_id = None, col_start_time = None, col_end_time = None,
            col_total_duration = 0, col_user_messages = 0, col_agent_responses = 0,
            col_interruptions = 0, col_avg_stt_delay = Finite 0, col_avg_ttft = Finite 0,
            col_avg_ttfd = Finite 0, col_avg_total_latency = Finite (3 / 2),
            col_max_latency = 3 / 2, col_min_latency = 3 / 2,
            col_errors = 0, col_latency_target_met = True\<rparr>
   \<and> \<not> (3 / 2 < TARGET_LATENCY strict_target)
   \<and> \<not> pf_less (Finite (3 / 2)) (Finite (TARGET_LATENCY strict_target))"
  by (simp add: summary_data_eq summary_row_def float_mean_exact latencies_only_def
      MetricsTracker_init_def strict_target_def all_keys_def missing_keys_def)

subsection \<open>C9: TTFD is measured from the start of the LLM call\<close>

text \<open>
  C9. In a cycle whose STT, LLM and TTS calls succeed, after \<open>d1\<close>, \<open>d2\<close> and \<open>d3\<close>, the
  LLM call starts at \<open>now + d1\<close> and the TTS result is there at \<open>now + d1 + d2 + d3\<close>:
  the TTFD sample recorded is the difference of these two instants, the latencies of
  the LLM and of the TTS together, which is the TTFT sample of the cycle plus the
  latency of the TTS, and not the latency of the TTS alone.
\<close>

theorem ttfd_from_llm_start:
  assumes "stt sv a = (d1, Inr u)" and "llm_service sv u = (d2, Inr r)"
    and "tts sv r = (d3, Inr au)"
  shows "ttfd_delays (world_metrics (snd (cycle sv ctx a w)))
           = ttfd_delays (world_metrics w) @ [(now w + d1 + d2 + d3) - (now w + d1)]
         \<and> ttft_delays (world_metrics (snd (cycle sv ctx a w)))
           = ttft_delays (world_metrics w) @ [(now w + d1 + d2) - (now w + d1)]
         \<and> (now w + d1 + d2 + d3) - (now w + d1) = d2 + d3
         \<and> (now w + d1 + d2 + d3) - (now w + d1) = ((now w + d1 + d2) - (now w + d1)) + d3"
  using assms
  by (simp add: cycle_synthesized send_audio_exec world_metrics_def record_agent_response_def
      record_ttfd_def record_ttft_def record_user_message_def record_stt_delay_def
      split: sum.splits)

text \<open>
  The theorem at the first segment of the session of three: the LLM takes 2, the TTS 3,
  the TTFD sample is 5.
\<close>

theorem ttfd_from_llm_start_witness:
  "stt scripted_services ''segment 1'' = (1, Inr ''hello'')
   \<and> llm_service scripted_services ''hello'' = (2, Inr ''hi there'')
   \<and> tts scripted_services ''hi there'' = (3, Inr ''bytes'')
   \<and> ttfd_delays (world_metrics
        (snd (cycle scripted_services three_segments ''segment 1''
               (VoiceAgent_init 1000 empty_disk)))) = [5]"
proof -
  let ?w = "VoiceAgent_init 1000 empty_disk"
  have h1: "stt scripted_services ''segment 1'' = (1, Inr ''hello'')"
    by (simp add: scripted_services_def)
  have h2: "llm_service scripted_services ''hello'' = (2, Inr ''hi there'')"
    by (simp add: scripted_services_def)
  have h3: "tts scripted_services ''hi there'' = (3, Inr ''bytes'')"
    by (simp add: scripted_services_def)
  have w0: "ttfd_delays (world_metrics ?w) = []" "now ?w = 1000"
    by (simp_all add: world_metrics_def VoiceAgent_init_def MetricsTracker_init_def)
  from ttfd_from_llm_start[OF h1 h2 h3, of three_segments ?w]
  have "ttfd_delays (world_metrics (snd (cycle scripted_services three_segments ''segment 1'' ?w)))
          = ttfd_delays (world_metrics ?w) @ [(now ?w + 1 + 2 + 3) - (now ?w + 1)]"
    by (rule conjunct1)
  then have t: "ttfd_delays (world_metrics
      (snd (cycle scripted_services three_segments ''segment 1'' ?w))) = [5]"
    by (simp only: w0) simp
  show ?thesis by (intro conjI h1 h2 h3 t)
qed

subsection \<open>C10: the export never raises\<close>

text \<open>
  C10. For every state of the tracker, every file name and every state of the files and
  of pandas, whichever of its calls raise (building the table, reading the file,
  concatenating, writing), \<open>save_to_excel\<close> returns normally; so does the tracker call
  made by the agent, and so does the whole \<open>finally\<close> block of \<open>entrypoint\<close>.
\<close>

theorem save_to_excel_never_raises:
  "fst (save_to_excel filename tr d) = None
   \<and> fst (invoke (SaveToExcel filename) w) = Inr ()
   \<and> fst (teardown w) = Inr ()"
proof -
  have a: "fst (save_to_excel f t e) = None" for f t e
    by (rule save_to_excel_returns)
  have b: "fst (invoke (SaveToExcel filename) w) = Inr ()"
    using a[of filename "metrics_tracker w" "disk w"]
    by (cases "save_to_excel filename (metrics_tracker w) (disk w)")
      (simp add: invoke_def Let_def)
  show ?thesis using a b by (simp add: teardown_exec)
qed

text \<open>
  The theorem at a metrics file that cannot be written: the body of the \<open>try\<close> raises
  \<open>PermissionError\<close>, and \<open>save_to_excel\<close> and the \<open>finally\<close> block return.
\<close>

theorem save_to_excel_never_raises_witness:
  "save_to_excel_try default_filename MetricsTracker_init locked_disk
     = Inl (Exc ''PermissionError'')
   \<and> fst (save_to_excel default_filename MetricsTracker_init locked_disk) = None
   \<and> fst (teardown (VoiceAgent_init 1000 locked_disk)) = Inr ()"
proof -
  have a: "save_to_excel_try default_filename MetricsTracker_init locked_disk
             = Inl (Exc ''PermissionError'')"
    by (simp add: save_to_excel_try_def summary_data_eq bind_exc_def pd_DataFrame_def
        os_path_exists_def pd_read_excel_def pd_concat_def to_excel_def locked_disk_def
        used_disk_def empty_disk_def)
  note th = save_to_excel_never_raises[of default_filename MetricsTracker_init locked_disk
      "VoiceAgent_init 1000 locked_disk"]
  from th have c: "fst (save_to_excel default_filename MetricsTracker_init locked_disk) = None"
    by (rule conjunct1)
  from th have d: "fst (teardown (VoiceAgent_init 1000 locked_disk)) = Inr ()"
    by (elim conjE)
  show ?thesis by (intro conjI a c d)
qed

end
